theory Spec2Isabelle
  imports Complex_Main "HOL-Library.Multiset" "HOL-Library.Sublist"
begin

section \<open>Strings and the host environment\<close>

text \<open>
  The program is the single React component of \<^verbatim>\<open>src/app/page.tsx\<close>. A string of the
  program is a sequence of UTF-16 code units; a code unit is modelled by its number.
  \<open>utf16\<close> gives the code units of a literal written in ASCII.
\<close>

type_synonym jsstring = "nat list"

definition utf16 :: "string \<Rightarrow> jsstring" where
  "utf16 s = map of_char s"

text \<open>The raw entries of the imported dataset (\<^verbatim>\<open>type CountryDetail\<close>). The loader guards
  every access with \<^verbatim>\<open>detail?.iso?.numeric\<close>, so an entry, its \<^verbatim>\<open>iso\<close> object and the
  \<^verbatim>\<open>numeric\<close> field may each be absent at run time; \<^verbatim>\<open>famous_for\<close>, \<^verbatim>\<open>is_landlocked\<close>
  and \<^verbatim>\<open>drive_direction\<close> are optional in the declared type.\<close>

record IsoCodes =
  numeric :: "jsstring option"
  alpha_3 :: "jsstring option"

record CountryDetail =
  country :: jsstring
  capital :: jsstring
  continent :: jsstring
  iso :: "IsoCodes option"
  famous_for :: "jsstring option"
  is_landlocked :: "bool option"
  drive_direction :: "jsstring option"

text \<open>
  What the program takes from outside its own source: the Unicode tables behind
  \<^verbatim>\<open>String.prototype.normalize("NFD")\<close>, \<^verbatim>\<open>toLowerCase\<close> and \<^verbatim>\<open>toUpperCase\<close>, the
  composite \<^verbatim>\<open>String(parseInt(s, 10))\<close>, the members a plain object inherits from
  \<^verbatim>\<open>Object.prototype\<close> (rendered as text; \<open>None\<close> for a key that is not inherited), the
  sequence of values \<^verbatim>\<open>Math.random()\<close> returns (by call number), and the dataset
  \<^verbatim>\<open>countriesLib.getAllCountryDetails()\<close>. They are parameters of every definition
  below; theorems hold for every environment unless they name one.
\<close>

record env =
  normalize_NFD :: "jsstring \<Rightarrow> jsstring"
  toLowerCase :: "jsstring \<Rightarrow> jsstring"
  toUpperCase :: "jsstring \<Rightarrow> jsstring"
  parseIntString :: "jsstring \<Rightarrow> jsstring"
  inheritedMember :: "jsstring \<Rightarrow> jsstring option"
  Math_random :: "nat \<Rightarrow> real"
  getAllCountryDetails :: "CountryDetail option list"

section \<open>Answer normalisation\<close>

text \<open>\<^verbatim>\<open>/[\u0300-\u036f]/\<close>: the combining diacritical marks.\<close>

definition combiningMark :: "nat \<Rightarrow> bool" where
  "combiningMark c \<longleftrightarrow> 0x300 \<le> c \<and> c \<le> 0x36f"

text \<open>\<^verbatim>\<open>/[a-z0-9]/\<close>: a lower-case ASCII letter or an ASCII digit.\<close>

definition lowerAlnum :: "nat \<Rightarrow> bool" where
  "lowerAlnum c \<longleftrightarrow> (0x61 \<le> c \<and> c \<le> 0x7a) \<or> (0x30 \<le> c \<and> c \<le> 0x39)"

text \<open>
  \<^verbatim>\<open>value.normalize("NFD").replace(/[\u0300-\u036f]/g, "").toLowerCase().replace(/[^a-z0-9]/g, "")\<close>
\<close>

definition normalizeAnswer :: "env \<Rightarrow> jsstring \<Rightarrow> jsstring" where
  "normalizeAnswer U v =
     filter lowerAlnum
       (toLowerCase U (filter (\<lambda>c. \<not> combiningMark c) (normalize_NFD U v)))"

section \<open>Loading the dataset\<close>

text \<open>\<^verbatim>\<open>value.split(" ")\<close> and \<^verbatim>\<open>parts.join(" ")\<close>.\<close>

fun split :: "nat \<Rightarrow> jsstring \<Rightarrow> jsstring list" where
  "split sep [] = [[]]"
| "split sep (c # cs) =
     (if c = sep then [] # split sep cs
      else (case split sep cs of
              [] \<Rightarrow> [[c]]
            | p # ps \<Rightarrow> (c # p) # ps))"

fun join :: "jsstring \<Rightarrow> jsstring list \<Rightarrow> jsstring" where
  "join sep [] = []"
| "join sep [p] = p"
| "join sep (p # q # ps) = p @ sep @ join sep (q # ps)"

definition titleizePart :: "env \<Rightarrow> jsstring \<Rightarrow> jsstring" where
  "titleizePart U part =
     (if length part > 3 then toUpperCase U (take 1 part) @ drop 1 part
      else toUpperCase U part)"

definition titleize :: "env \<Rightarrow> jsstring \<Rightarrow> jsstring" where
  "titleize U v = join (utf16 '' '') (map (titleizePart U) (split 0x20 v))"

datatype driveSide = DLeft | DRight

record Country =
  ident :: jsstring
  name :: jsstring
  capital :: jsstring
  continent :: jsstring
  continentCode :: jsstring
  isLandlocked :: bool
  driveDirection :: driveSide
  famousFor :: "jsstring option"

definition CONTINENT_NAMES :: "(jsstring \<times> jsstring) list" where
  "CONTINENT_NAMES =
     [(utf16 ''af'', utf16 ''Africa''),
      (utf16 ''as'', utf16 ''Asia''),
      (utf16 ''eu'', utf16 ''Europe''),
      (utf16 ''na'', utf16 ''North America''),
      (utf16 ''sa'', utf16 ''South America''),
      (utf16 ''oc'', utf16 ''Oceania''),
      (utf16 ''an'', utf16 ''Antarctica'')]"

text \<open>\<^verbatim>\<open>CONTINENT_NAMES[code] ?? "Unknown"\<close>: an own key, else an inherited member of the
  object, else the default.\<close>

definition continentName :: "env \<Rightarrow> jsstring \<Rightarrow> jsstring" where
  "continentName U code =
     (case map_of CONTINENT_NAMES code of
        Some n \<Rightarrow> n
      | None \<Rightarrow> (case inheritedMember U code of
                   Some m \<Rightarrow> m
                 | None \<Rightarrow> utf16 ''Unknown''))"

text \<open>\<^verbatim>\<open>detail?.iso?.numeric\<close>, as a truthy value: \<open>None\<close> when the entry, its \<^verbatim>\<open>iso\<close>
  or its \<^verbatim>\<open>numeric\<close> is absent, or \<^verbatim>\<open>numeric\<close> is the empty string.\<close>

definition isoNumeric :: "CountryDetail option \<Rightarrow> jsstring option" where
  "isoNumeric detail =
     (case detail of
        None \<Rightarrow> None
      | Some d \<Rightarrow> (case iso d of
                   None \<Rightarrow> None
                 | Some i \<Rightarrow> (case numeric i of
                              None \<Rightarrow> None
                            | Some n \<Rightarrow> if n = [] then None else Some n)))"

text \<open>The first pass of \<^verbatim>\<open>buildCountries\<close> fills \<^verbatim>\<open>detailByIso\<close>, keyed by the raw and
  by the parsed code. The value the function returns does not read this map.\<close>

definition detailByIso :: "env \<Rightarrow> (jsstring \<rightharpoonup> CountryDetail)" where
  "detailByIso U =
     fold (\<lambda>detail m.
             case (detail, isoNumeric detail) of
               (Some d, Some numericRaw) \<Rightarrow>
                 (m(numericRaw \<mapsto> d))(parseIntString U numericRaw \<mapsto> d)
             | _ \<Rightarrow> m)
          (getAllCountryDetails U) Map.empty"

text \<open>The callback of \<^verbatim>\<open>detailList.map\<close>: \<open>None\<close> is its \<^verbatim>\<open>null\<close>.\<close>

definition toCountry :: "env \<Rightarrow> CountryDetail option \<Rightarrow> Country option" where
  "toCountry U detail =
     (case (detail, isoNumeric detail) of
        (Some d, Some n) \<Rightarrow>
          Some \<lparr> ident = parseIntString U n,
                 name = titleize U (country d),
                 capital = titleize U (CountryDetail.capital d),
                 continent = continentName U (CountryDetail.continent d),
                 continentCode = CountryDetail.continent d,
                 isLandlocked = (is_landlocked d = Some True),
                 driveDirection =
                   (if drive_direction d = Some (utf16 ''left'') then DLeft else DRight),
                 famousFor = famous_for d \<rparr>
      | _ \<Rightarrow> None)"

text \<open>\<^verbatim>\<open>.filter(Boolean)\<close> on a list of objects and \<^verbatim>\<open>null\<close>s.\<close>

fun filterBoolean :: "'a option list \<Rightarrow> 'a list" where
  "filterBoolean [] = []"
| "filterBoolean (None # xs) = filterBoolean xs"
| "filterBoolean (Some x # xs) = x # filterBoolean xs"

definition buildCountries :: "env \<Rightarrow> Country list" where
  "buildCountries U = filterBoolean (map (toCountry U) (getAllCountryDetails U))"

section \<open>Numbers\<close>

text \<open>
  A number of the program is an IEEE 754 double, modelled by its value, a real number.
  \<open>fl\<close> rounds a real number to the nearest double: 53 significant bits, ties to the
  even significand. The exponent range is not modelled (no overflow, no subnormals):
  the values the program computes lie between \<open>2\<^sup>-\<^sup>5\<^sup>3\<close> and \<open>2\<^sup>5\<^sup>3\<close>. The counters are
  natural numbers, which are doubles below \<open>2\<^sup>5\<^sup>3\<close>.
\<close>

fun ilog2 :: "nat \<Rightarrow> nat" where
  "ilog2 n = (if n < 2 then 0 else Suc (ilog2 (n div 2)))"

declare ilog2.simps [simp del]

definition clog2 :: "nat \<Rightarrow> nat" where
  "clog2 n = (if n \<le> 1 then 0 else Suc (ilog2 (n - 1)))"

definition pow2 :: "int \<Rightarrow> real" where
  "pow2 e = (if 0 \<le> e then 2 ^ nat e else 1 / 2 ^ nat (- e))"

text \<open>The binary exponent of a positive number: \<open>pow2 (expo x) \<le> x < pow2 (expo x + 1)\<close>.\<close>

definition expo :: "real \<Rightarrow> int" where
  "expo x = (if 1 \<le> x then int (ilog2 (nat \<lfloor>x\<rfloor>)) else - int (clog2 (nat \<lceil>1 / x\<rceil>)))"

definition roundTiesToEven :: "real \<Rightarrow> int" where
  "roundTiesToEven x =
     (let f = \<lfloor>x\<rfloor>; d = x - of_int f
      in if d < 1 / 2 then f
         else if 1 / 2 < d then f + 1
         else if even f then f else f + 1)"

definition flPos :: "real \<Rightarrow> real" where
  "flPos x = (let u = pow2 (expo x - 52) in of_int (roundTiesToEven (x / u)) * u)"

definition fl :: "real \<Rightarrow> real" where
  "fl x = (if x = 0 then 0 else if x < 0 then - flPos (- x) else flPos x)"

text \<open>\<^verbatim>\<open>Math.round(x)\<close>: the nearest integer, a tie going up.\<close>

definition Math_round :: "real \<Rightarrow> int" where
  "Math_round x = \<lfloor>x + 1 / 2\<rfloor>"

text \<open>\<^verbatim>\<open>Math.floor(Math.random() * n)\<close>, for the \<open>k\<close>-th call of \<^verbatim>\<open>Math.random\<close>.\<close>

definition randomBelow :: "env \<Rightarrow> nat \<Rightarrow> nat \<Rightarrow> nat" where
  "randomBelow U k n = nat \<lfloor>fl (Math_random U k * of_nat n)\<rfloor>"

section \<open>Shuffling, the pool and the geography question\<close>

text \<open>
  \<^verbatim>\<open>for (let i = result.length - 1; i > 0; i -= 1) { j = ...; [result[i], result[j]] = [result[j], result[i]]; }\<close>
  The loop takes the number of calls \<^verbatim>\<open>Math.random\<close> has had and returns the new one.
\<close>

fun shuffleLoop :: "env \<Rightarrow> nat \<Rightarrow> nat \<Rightarrow> 'a list \<Rightarrow> 'a list \<times> nat" where
  "shuffleLoop U 0 k result = (result, k)"
| "shuffleLoop U (Suc i') k result =
     (let i = Suc i'; j = randomBelow U k (i + 1)
      in shuffleLoop U i' (Suc k) (result[i := result ! j, j := result ! i]))"

definition shuffle :: "env \<Rightarrow> nat \<Rightarrow> 'a list \<Rightarrow> 'a list \<times> nat" where
  "shuffle U k array = shuffleLoop U (length array - 1) k array"

definition TOTAL_LEVELS :: nat where
  "TOTAL_LEVELS = 100"

text \<open>\<^verbatim>\<open>shuffle(buildCountries()).slice(0, TOTAL_LEVELS)\<close>\<close>

definition buildPool :: "env \<Rightarrow> nat \<Rightarrow> Country list \<times> nat" where
  "buildPool U k = (let (shuffled, k') = shuffle U k (buildCountries U)
                    in (take TOTAL_LEVELS shuffled, k'))"

record GeoQuestion =
  prompt :: jsstring
  answer :: jsstring
  options :: "jsstring list"

text \<open>\<^verbatim>\<open>xs[i]\<close> read as a value that may be \<^verbatim>\<open>undefined\<close>.\<close>

definition elemAt :: "'a list \<Rightarrow> nat \<Rightarrow> 'a option" where
  "elemAt xs i = (if i < length xs then Some (xs ! i) else None)"

definition buildGeoQuestion :: "env \<Rightarrow> nat \<Rightarrow> Country \<Rightarrow> GeoQuestion option \<times> nat" where
  "buildGeoQuestion U k c =
     (let (yesNo, k1) = shuffle U k [utf16 ''Yes'', utf16 ''No''];
          (leftRight, k2) = shuffle U k1 [utf16 ''Left'', utf16 ''Right''];
          candidates =
            [\<lparr> prompt = utf16 ''Is '' @ name c @ utf16 '' landlocked?'',
               answer = (if isLandlocked c then utf16 ''Yes'' else utf16 ''No''),
               options = yesNo \<rparr>,
             \<lparr> prompt = utf16 ''Which driving side is used in '' @ name c @ utf16 ''?'',
               answer = (if driveDirection c = DLeft then utf16 ''Left'' else utf16 ''Right''),
               options = leftRight \<rparr>]
      in (elemAt candidates (randomBelow U k2 (length candidates)), Suc k2))"

section \<open>The component's state and its event handlers\<close>

datatype Step = SCountry | SCapital | SGeo

text \<open>
  The \<^verbatim>\<open>useState\<close> cells of \<^verbatim>\<open>Home\<close>, the \<^verbatim>\<open>useMemo\<close> cell \<^verbatim>\<open>geoQuestion\<close>, and the
  number of calls \<^verbatim>\<open>Math.random\<close> has had (which the program does not hold, its host
  does). Handlers are state transformers; the updater functions \<^verbatim>\<open>prev => prev + 1\<close>
  of one handler apply in the order they are queued.
\<close>

record state =
  countries :: "Country list"
  levelIndex :: nat
  step :: Step
  answer :: jsstring
  feedback :: jsstring
  attempts :: nat
  correctCount :: nat
  streak :: nat
  selectedOption :: "jsstring option"
  showHint :: bool
  geoQuestion :: "GeoQuestion option"
  randomCalls :: nat

definition totalLevels :: "state \<Rightarrow> nat" where
  "totalLevels s = min TOTAL_LEVELS (length (countries s))"

definition currentCountry :: "state \<Rightarrow> Country option" where
  "currentCountry s =
     (if levelIndex s < length (countries s) then Some (countries s ! levelIndex s) else None)"

definition finished :: "state \<Rightarrow> bool" where
  "finished s \<longleftrightarrow> totalLevels s > 0 \<and> levelIndex s \<ge> totalLevels s"

text \<open>
  \<^verbatim>\<open>useMemo(() => (currentCountry ? buildGeoQuestion(currentCountry) : null), [currentCountry])\<close>:
  the question is computed again at the render that follows a change of
  \<^verbatim>\<open>currentCountry\<close>, and at no other time. The transitions that change it
  (the first render, \<open>handleAdvance\<close>, \<open>restart\<close>) end with \<open>remember\<close>; no other
  transition writes the cell.
\<close>

definition remember :: "env \<Rightarrow> state \<Rightarrow> state" where
  "remember U s =
     (case currentCountry s of
        None \<Rightarrow> s\<lparr>geoQuestion := None\<rparr>
      | Some c \<Rightarrow> (let (q, k') = buildGeoQuestion U (randomCalls s) c
                   in s\<lparr>geoQuestion := q, randomCalls := k'\<rparr>))"

definition initialState :: "env \<Rightarrow> state" where
  "initialState U =
     (let (built, k') = buildPool U 0
      in remember U
           \<lparr> countries = built, levelIndex = 0, step = SCountry, answer = [],
             feedback = [], attempts = 0, correctCount = 0, streak = 0,
             selectedOption = None, showHint = False, geoQuestion = None,
             randomCalls = k' \<rparr>)"

definition handleCorrect :: "Step option \<Rightarrow> state \<Rightarrow> state" where
  "handleCorrect nextStep s =
     (let s1 = s\<lparr>correctCount := correctCount s + 1\<rparr>;
          s2 = s1\<lparr>streak := streak s1 + 1\<rparr>;
          s3 = s2\<lparr>feedback :=
                     (if nextStep = Some SCountry
                      then utf16 ''Level complete! Get ready for the next spotlight.''
                      else utf16 ''On point! Keep it going.'')\<rparr>
      in case nextStep of
           None \<Rightarrow> s3
         | Some n \<Rightarrow> s3\<lparr>step := n, answer := []\<rparr>)"

text \<open>
  \<^verbatim>\<open>handleAdvance\<close> is a closure of the render that made it and reads the
  \<^verbatim>\<open>finished\<close> of that render, \<open>rendered\<close>; its writes, the updater
  \<^verbatim>\<open>prev => prev + 1\<close> among them, apply to the state \<open>s\<close> at the time it is called.
  Its only caller is the timer of \<^verbatim>\<open>handleGeoChoice\<close>, which calls the closure of the render
  in which the option was clicked.
\<close>

definition handleAdvance :: "env \<Rightarrow> state \<Rightarrow> state \<Rightarrow> state" where
  "handleAdvance U rendered s =
     (if finished rendered then s
      else remember U
             (s\<lparr>levelIndex := levelIndex s + 1, step := SCountry, answer := [],
                selectedOption := None, feedback := []\<rparr>))"

definition handleSubmit :: "env \<Rightarrow> state \<Rightarrow> state" where
  "handleSubmit U s =
     (case currentCountry s of
        None \<Rightarrow> s
      | Some c \<Rightarrow>
          (let cleaned = normalizeAnswer U (answer s)
           in if cleaned = [] then s\<lparr>feedback := utf16 ''Type your answer to keep moving.''\<rparr>
              else
                (let s1 = s\<lparr>attempts := attempts s + 1\<rparr>
                 in if step s = SCountry then
                      (if normalizeAnswer U (name c) = cleaned
                       then handleCorrect (Some SCapital) s1
                       else s1\<lparr>feedback := utf16 ''Not quite. Use the hints and try again.'',
                               streak := 0\<rparr>)
                    else if step s = SCapital then
                      (if normalizeAnswer U (capital c) = cleaned
                       then handleCorrect (Some SGeo) s1
                       else s1\<lparr>feedback := utf16 ''Close! Think of the capital city.'',
                               streak := 0\<rparr>)
                    else s1)))"

text \<open>The synchronous part of \<^verbatim>\<open>handleGeoChoice\<close>. On a correct choice the handler also
  arms a timer; 600 ms later the timer's event is \<open>handleAdvance U s\<close>, the closure of the
  state \<open>s\<close> the handler was called in, applied to the state of that later time.\<close>

definition handleGeoChoice :: "env \<Rightarrow> jsstring \<Rightarrow> state \<Rightarrow> state" where
  "handleGeoChoice U option s =
     (case geoQuestion s of
        None \<Rightarrow> s
      | Some q \<Rightarrow>
          (let s1 = s\<lparr>selectedOption := Some option\<rparr>;
               s2 = s1\<lparr>attempts := attempts s1 + 1\<rparr>
           in if normalizeAnswer U option = normalizeAnswer U (GeoQuestion.answer q)
              then handleCorrect (Some SCountry) s2
              else s2\<lparr>feedback := utf16 ''Geography check missed. Try another option.'',
                      streak := 0\<rparr>))"

text \<open>The \<^verbatim>\<open>onClick\<close> of the button "Restart with new order".\<close>

definition restart :: "env \<Rightarrow> state \<Rightarrow> state" where
  "restart U s =
     (let (built, k') = buildPool U (randomCalls s)
      in remember U
           (s\<lparr>countries := built, levelIndex := 0, step := SCountry, answer := [],
              attempts := 0, correctCount := 0, streak := 0, feedback := [],
              selectedOption := None, randomCalls := k'\<rparr>))"

text \<open>The input's \<^verbatim>\<open>onChange\<close> and the hint button's \<^verbatim>\<open>onClick\<close>.\<close>

definition setAnswer :: "jsstring \<Rightarrow> state \<Rightarrow> state" where
  "setAnswer v s = s\<lparr>answer := v\<rparr>"

definition toggleHint :: "state \<Rightarrow> state" where
  "toggleHint s = s\<lparr>showHint := \<not> showHint s\<rparr>"

section \<open>Derived text: the hint and the accuracy\<close>

text \<open>\<^verbatim>\<open>s.includes(t)\<close> and \<^verbatim>\<open>s.charAt(0)\<close>.\<close>

definition stringIncludes :: "jsstring \<Rightarrow> jsstring \<Rightarrow> bool" where
  "stringIncludes s t = sublist t s"

definition charAt0 :: "jsstring \<Rightarrow> jsstring" where
  "charAt0 s = take 1 s"

definition sideText :: "driveSide \<Rightarrow> jsstring" where
  "sideText d = (case d of DLeft \<Rightarrow> utf16 ''left'' | DRight \<Rightarrow> utf16 ''right'')"

text \<open>The body of the \<^verbatim>\<open>useMemo\<close> of \<^verbatim>\<open>hintLine\<close>, a function of its dependencies
  \<^verbatim>\<open>[currentCountry, geoQuestion, step]\<close>.\<close>

definition hintLine :: "env \<Rightarrow> Country option \<Rightarrow> GeoQuestion option \<Rightarrow> Step \<Rightarrow> jsstring" where
  "hintLine U cur gq st =
     (case cur of
        None \<Rightarrow> utf16 ''Loading hint...''
      | Some c \<Rightarrow>
          if st = SCountry then
            utf16 ''Country starts with '' @ toUpperCase U (charAt0 (name c))
              @ utf16 '' and sits in '' @ continent c @ utf16 ''.''
          else if st = SCapital then
            utf16 ''Capital starts with '' @ toUpperCase U (charAt0 (capital c))
              @ utf16 '' for '' @ name c @ utf16 ''.''
          else
            (case gq of
               None \<Rightarrow> utf16 ''Stay sharp.''
             | Some q \<Rightarrow>
                 if stringIncludes (prompt q) (utf16 ''landlocked'') then
                   (if isLandlocked c then utf16 ''No coastline.'' else utf16 ''Touches the sea.'')
                 else if stringIncludes (prompt q) (utf16 ''driving side'') then
                   utf16 ''They drive on the '' @ sideText (driveDirection c) @ utf16 '' side.''
                 else utf16 ''Stay sharp.''))"

text \<open>\<^verbatim>\<open>attempts ? Math.round((correctCount / attempts) * 100) : 100\<close>\<close>

definition accuracy :: "state \<Rightarrow> int" where
  "accuracy s =
     (if attempts s \<noteq> 0
      then Math_round (fl (fl (of_nat (correctCount s) / of_nat (attempts s)) * 100))
      else 100)"

section \<open>A reference environment\<close>

text \<open>
  The host's functions on strings of Basic Latin and Latin-1 Supplement (code units
  below \<open>0x100\<close>), where they work unit by unit: the canonical decompositions of the
  Unicode Character Database, and its lower-case and upper-case mappings. A code unit
  from \<open>0x100\<close> on is left as it is, which is not what the host does: the reference
  environment is applied only to strings below \<open>0x100\<close>, in the closed examples.
\<close>

definition latin1Decomposition :: "(nat \<times> jsstring) list" where
  "latin1Decomposition =
     [
      (0xc0, [0x41, 0x300]), (0xc1, [0x41, 0x301]), (0xc2, [0x41, 0x302]), (0xc3, [0x41, 0x303]),
      (0xc4, [0x41, 0x308]), (0xc5, [0x41, 0x30a]), (0xc7, [0x43, 0x327]), (0xc8, [0x45, 0x300]),
      (0xc9, [0x45, 0x301]), (0xca, [0x45, 0x302]), (0xcb, [0x45, 0x308]), (0xcc, [0x49, 0x300]),
      (0xcd, [0x49, 0x301]), (0xce, [0x49, 0x302]), (0xcf, [0x49, 0x308]), (0xd1, [0x4e, 0x303]),
      (0xd2, [0x4f, 0x300]), (0xd3, [0x4f, 0x301]), (0xd4, [0x4f, 0x302]), (0xd5, [0x4f, 0x303]),
      (0xd6, [0x4f, 0x308]), (0xd9, [0x55, 0x300]), (0xda, [0x55, 0x301]), (0xdb, [0x55, 0x302]),
      (0xdc, [0x55, 0x308]), (0xdd, [0x59, 0x301]), (0xe0, [0x61, 0x300]), (0xe1, [0x61, 0x301]),
      (0xe2, [0x61, 0x302]), (0xe3, [0x61, 0x303]), (0xe4, [0x61, 0x308]), (0xe5, [0x61, 0x30a]),
      (0xe7, [0x63, 0x327]), (0xe8, [0x65, 0x300]), (0xe9, [0x65, 0x301]), (0xea, [0x65, 0x302]),
      (0xeb, [0x65, 0x308]), (0xec, [0x69, 0x300]), (0xed, [0x69, 0x301]), (0xee, [0x69, 0x302]),
      (0xef, [0x69, 0x308]), (0xf1, [0x6e, 0x303]), (0xf2, [0x6f, 0x300]), (0xf3, [0x6f, 0x301]),
      (0xf4, [0x6f, 0x302]), (0xf5, [0x6f, 0x303]), (0xf6, [0x6f, 0x308]), (0xf9, [0x75, 0x300]),
      (0xfa, [0x75, 0x301]), (0xfb, [0x75, 0x302]), (0xfc, [0x75, 0x308]), (0xfd, [0x79, 0x301]),
      (0xff, [0x79, 0x308])]"

definition nfdLatin1 :: "jsstring \<Rightarrow> jsstring" where
  "nfdLatin1 s = concat (map (\<lambda>c. case map_of latin1Decomposition c of
                                      Some d \<Rightarrow> d
                                    | None \<Rightarrow> [c]) s)"

definition lowerLatin1 :: "jsstring \<Rightarrow> jsstring" where
  "lowerLatin1 s =
     map (\<lambda>c. if (0x41 \<le> c \<and> c \<le> 0x5a) \<or> (0xc0 \<le> c \<and> c \<le> 0xde \<and> c \<noteq> 0xd7)
               then c + 0x20 else c) s"

definition upperLatin1 :: "jsstring \<Rightarrow> jsstring" where
  "upperLatin1 s =
     concat (map (\<lambda>c. if (0x61 \<le> c \<and> c \<le> 0x7a) \<or> (0xe0 \<le> c \<and> c \<le> 0xfe \<and> c \<noteq> 0xf7)
                       then [c - 0x20]
                       else if c = 0xdf then [0x53, 0x53]
                       else if c = 0xff then [0x178]
                       else if c = 0xb5 then [0x39c]
                       else [c]) s)"

text \<open>
  \<^verbatim>\<open>String(parseInt(s, 10))\<close>: leading white space is skipped, then an optional sign,
  then the longest run of decimal digits is read; no digit gives \<^verbatim>\<open>NaN\<close>. The value is
  printed without leading zeros. Exact while the value is below \<open>2\<^sup>5\<^sup>3\<close>.
\<close>

definition strWhiteSpace :: "nat \<Rightarrow> bool" where
  "strWhiteSpace c \<longleftrightarrow>
     c \<in> {0x09, 0x0a, 0x0b, 0x0c, 0x0d, 0x20, 0xa0, 0x1680, 0x2028, 0x2029, 0x202f,
          0x205f, 0x3000, 0xfeff} \<or> (0x2000 \<le> c \<and> c \<le> 0x200a)"

definition isDigit :: "nat \<Rightarrow> bool" where
  "isDigit c \<longleftrightarrow> 0x30 \<le> c \<and> c \<le> 0x39"

fun decimal :: "nat \<Rightarrow> jsstring" where
  "decimal n = (if n < 10 then [0x30 + n] else decimal (n div 10) @ [0x30 + n mod 10])"

declare decimal.simps [simp del]

definition digitsValue :: "jsstring \<Rightarrow> nat" where
  "digitsValue z = fold (\<lambda>c acc. acc * 10 + (c - 0x30)) z 0"

definition parseIntStringRef :: "jsstring \<Rightarrow> jsstring" where
  "parseIntStringRef s =
     (let t = dropWhile strWhiteSpace s;
          negative = (take 1 t = [0x2d]);
          r = (if take 1 t = [0x2d] \<or> take 1 t = [0x2b] then drop 1 t else t);
          z = takeWhile isDigit r
      in if z = [] then utf16 ''NaN''
         else if negative \<and> digitsValue z \<noteq> 0 then 0x2d # decimal (digitsValue z)
         else decimal (digitsValue z))"

text \<open>The members of \<^verbatim>\<open>Object.prototype\<close>, as a template string prints them.\<close>

definition objectPrototypeFunctions :: "jsstring list" where
  "objectPrototypeFunctions =
     map utf16
       [''constructor'', ''hasOwnProperty'', ''isPrototypeOf'', ''propertyIsEnumerable'',
        ''toLocaleString'', ''toString'', ''valueOf'', ''__defineGetter__'',
        ''__defineSetter__'', ''__lookupGetter__'', ''__lookupSetter__'']"

definition inheritedMemberRef :: "jsstring \<Rightarrow> jsstring option" where
  "inheritedMemberRef k =
     (if k = utf16 ''__proto__'' then Some (utf16 ''[object Object]'')
      else if k = utf16 ''constructor'' then Some (utf16 ''function Object() { [native code] }'')
      else if k \<in> set objectPrototypeFunctions
      then Some (utf16 ''function '' @ k @ utf16 ''() { [native code] }'')
      else None)"

text \<open>A sample of the dataset, in the shape the library gives its entries: one entry has
  no numeric code, one has neither a landlocked flag nor a drive direction.\<close>

definition afghanistanDetail :: CountryDetail where
  "afghanistanDetail =
     \<lparr> country = utf16 ''afghanistan'', capital = utf16 ''kabul'', continent = utf16 ''as'',
       iso = Some \<lparr> numeric = Some (utf16 ''004''), alpha_3 = Some (utf16 ''afg'') \<rparr>,
       famous_for = None, is_landlocked = Some True,
       drive_direction = Some (utf16 ''right'') \<rparr>"

definition singaporeDetail :: CountryDetail where
  "singaporeDetail =
     \<lparr> country = utf16 ''singapore'', capital = utf16 ''singapore'', continent = utf16 ''as'',
       iso = Some \<lparr> numeric = Some (utf16 ''702''), alpha_3 = Some (utf16 ''sgp'') \<rparr>,
       famous_for = None, is_landlocked = Some False,
       drive_direction = Some (utf16 ''left'') \<rparr>"

definition kosovoDetail :: CountryDetail where
  "kosovoDetail =
     \<lparr> country = utf16 ''kosovo'', capital = utf16 ''pristina'', continent = utf16 ''eu'',
       iso = Some \<lparr> numeric = None, alpha_3 = None \<rparr>,
       famous_for = None, is_landlocked = Some True,
       drive_direction = Some (utf16 ''right'') \<rparr>"

definition antarcticaDetail :: CountryDetail where
  "antarcticaDetail =
     \<lparr> country = utf16 ''antarctica'', capital = [], continent = utf16 ''an'',
       iso = Some \<lparr> numeric = Some (utf16 ''010''), alpha_3 = Some (utf16 ''ata'') \<rparr>,
       famous_for = None, is_landlocked = None, drive_direction = None \<rparr>"

definition sampleDetails :: "CountryDetail option list" where
  "sampleDetails =
     [Some afghanistanDetail, Some singaporeDetail, Some kosovoDetail, Some antarcticaDetail]"

definition refEnv :: env where
  "refEnv =
     \<lparr> normalize_NFD = nfdLatin1, toLowerCase = lowerLatin1, toUpperCase = upperLatin1,
       parseIntString = parseIntStringRef, inheritedMember = inheritedMemberRef,
       Math_random = (\<lambda>k. of_nat ((5 * k + 3) mod 8) / 8),
       getAllCountryDetails = sampleDetails \<rparr>"

section \<open>Sample records and states\<close>

text \<open>Two records as the loader builds them, a question for the first, and a state in
  the middle of a game: level 1, three checks made, one of them right.\<close>

definition brazil :: Country where
  "brazil =
     \<lparr> ident = utf16 ''76'', name = utf16 ''Brazil'',
       capital = utf16 ''Bras'' @ [0xed] @ utf16 ''lia'', continent = utf16 ''South America'',
       continentCode = utf16 ''sa'', isLandlocked = False, driveDirection = DRight,
       famousFor = None \<rparr>"

definition singapore :: Country where
  "singapore =
     \<lparr> ident = utf16 ''702'', name = utf16 ''Singapore'', capital = utf16 ''Singapore'',
       continent = utf16 ''Asia'', continentCode = utf16 ''as'', isLandlocked = False,
       driveDirection = DLeft, famousFor = None \<rparr>"

definition brazilLandlocked :: GeoQuestion where
  "brazilLandlocked =
     \<lparr> prompt = utf16 ''Is Brazil landlocked?'', answer = utf16 ''No'',
       options = [utf16 ''No'', utf16 ''Yes''] \<rparr>"

definition sampleState :: state where
  "sampleState =
     \<lparr> countries = [brazil, singapore], levelIndex = 0, step = SCountry, answer = [],
       feedback = [], attempts = 3, correctCount = 1, streak = 1,
       selectedOption = None, showHint = False, geoQuestion = Some brazilLandlocked,
       randomCalls = 4 \<rparr>"

section \<open>The invariant of the counters\<close>

text \<open>No more right answers than checks.\<close>

definition countsOK :: "state \<Rightarrow> bool" where
  "countsOK s \<longleftrightarrow> correctCount s \<le> attempts s"

text \<open>A dataset that lists one numeric code twice, the second time under another name,
  and the sample entry without a drive direction as the loader turns it into a record.\<close>

definition duplicateDetails :: "CountryDetail option list" where
  "duplicateDetails =
     [Some afghanistanDetail,
      Some \<lparr> country = utf16 ''islamic emirate of afghanistan'', capital = utf16 ''kabul'',
             continent = utf16 ''as'',
             iso = Some \<lparr> numeric = Some (utf16 ''004''), alpha_3 = None \<rparr>,
             famous_for = None, is_landlocked = Some True,
             drive_direction = Some (utf16 ''right'') \<rparr>]"

definition antarctica :: Country where
  "antarctica =
     \<lparr> ident = utf16 ''10'', name = utf16 ''Antarctica'', capital = [],
       continent = utf16 ''Antarctica'', continentCode = utf16 ''an'', isLandlocked = False,
       driveDirection = DRight, famousFor = None \<rparr>"

section \<open>The contract of the random source\<close>

text \<open>\<^verbatim>\<open>Math.random()\<close> returns a double that is at least 0 and below 1; the largest double
  below 1 is \<open>1 - 2\<^sup>-\<^sup>5\<^sup>3\<close>.\<close>

definition unitRandom :: "env \<Rightarrow> bool" where
  "unitRandom U \<longleftrightarrow> (\<forall>k. 0 \<le> Math_random U k \<and> Math_random U k \<le> 1 - 1 / 2 ^ 53)"

text \<open>A question as \<open>buildGeoQuestion\<close> makes it for the record \<open>singapore\<close>.\<close>

definition singaporeDriving :: GeoQuestion where
  "singaporeDriving =
     \<lparr> prompt = utf16 ''Which driving side is used in Singapore?'', answer = utf16 ''Left'',
       options = [utf16 ''Left'', utf16 ''Right''] \<rparr>"

section \<open>Evaluation rules\<close>

lemmas ref_simps = normalizeAnswer_def refEnv_def nfdLatin1_def lowerLatin1_def utf16_def
  latin1Decomposition_def combiningMark_def lowerAlnum_def

lemmas sample_simps = sampleState_def brazil_def singapore_def brazilLandlocked_def
  currentCountry_def

section \<open>Submitting a country name\<close>

text \<open>
  C1. In the step \<open>SCountry\<close>, with a current country and an input whose normalised
  form is not empty: when the normalised input is the normalised name of the current
  country, \<open>handleSubmit\<close> moves to the step \<open>SCapital\<close>, adds one to \<open>correctCount\<close>
  and to \<open>streak\<close>, and clears the input; otherwise it stays in \<open>SCountry\<close>, adds
  one to \<open>attempts\<close>, leaves \<open>correctCount\<close> as it is and sets \<open>streak\<close> to 0.
\<close>

theorem handleSubmit_country:
  assumes "step s = SCountry" and "currentCountry s = Some c"
    and "normalizeAnswer U (answer s) \<noteq> []"
  shows "(normalizeAnswer U (answer s) = normalizeAnswer U (name c) \<longrightarrow>
            step (handleSubmit U s) = SCapital
          \<and> correctCount (handleSubmit U s) = correctCount s + 1
          \<and> streak (handleSubmit U s) = streak s + 1
          \<and> answer (handleSubmit U s) = [])
       \<and> (normalizeAnswer U (answer s) \<noteq> normalizeAnswer U (name c) \<longrightarrow>
            step (handleSubmit U s) = SCountry
          \<and> attempts (handleSubmit U s) = attempts s + 1
          \<and> correctCount (handleSubmit U s) = correctCount s
          \<and> streak (handleSubmit U s) = 0)"
  using assms by (auto simp add: handleSubmit_def handleCorrect_def Let_def)

theorem handleSubmit_country_witness:
  "step (handleSubmit refEnv (sampleState\<lparr>answer := utf16 ''BRAZIL''\<rparr>)) = SCapital
   \<and> correctCount (handleSubmit refEnv (sampleState\<lparr>answer := utf16 ''BRAZIL''\<rparr>)) = 2
   \<and> streak (handleSubmit refEnv (sampleState\<lparr>answer := utf16 ''BRAZIL''\<rparr>)) = 2
   \<and> answer (handleSubmit refEnv (sampleState\<lparr>answer := utf16 ''BRAZIL''\<rparr>)) = []
   \<and> step (handleSubmit refEnv (sampleState\<lparr>answer := utf16 ''Peru''\<rparr>)) = SCountry
   \<and> attempts (handleSubmit refEnv (sampleState\<lparr>answer := utf16 ''Peru''\<rparr>)) = 4
   \<and> correctCount (handleSubmit refEnv (sampleState\<lparr>answer := utf16 ''Peru''\<rparr>)) = 1
   \<and> streak (handleSubmit refEnv (sampleState\<lparr>answer := utf16 ''Peru''\<rparr>)) = 0"
proof -
  have right: "normalizeAnswer refEnv (utf16 ''BRAZIL'') = utf16 ''brazil''"
    by (simp add: ref_simps)
  have wrong: "normalizeAnswer refEnv (utf16 ''Peru'') = utf16 ''peru''"
    by (simp add: ref_simps)
  have target: "normalizeAnswer refEnv (name brazil) = utf16 ''brazil''"
    by (simp add: ref_simps brazil_def)
  have cur: "currentCountry (sampleState\<lparr>answer := a\<rparr>) = Some brazil" for a
    by (simp add: sample_simps)
  have st: "step (sampleState\<lparr>answer := a\<rparr>) = SCountry" for a
    by (simp add: sampleState_def)
  have ne: "utf16 ''peru'' \<noteq> utf16 ''brazil''" "utf16 ''brazil'' \<noteq> []" "utf16 ''peru'' \<noteq> []"
    by (simp_all add: utf16_def)
  show ?thesis
    using handleSubmit_country [OF st cur, of refEnv "utf16 ''BRAZIL''"]
      handleSubmit_country [OF st cur, of refEnv "utf16 ''Peru''"] ne
    by (simp add: right wrong target sampleState_def)
qed

section \<open>The normal form of an answer\<close>

lemma normalizeAnswer_lowerAlnum: "c \<in> set (normalizeAnswer U s) \<Longrightarrow> lowerAlnum c"
  by (simp add: normalizeAnswer_def)

lemma handleSubmit_country_step:
  "step s = SCountry \<Longrightarrow> currentCountry s = Some c \<Longrightarrow>
   (step (handleSubmit U s) = SCapital)
     = (normalizeAnswer U (answer s) \<noteq> []
        \<and> normalizeAnswer U (answer s) = normalizeAnswer U (name c))"
  by (auto simp add: handleSubmit_def handleCorrect_def Let_def)

lemma handleSubmit_capital_step:
  "step s = SCapital \<Longrightarrow> currentCountry s = Some c \<Longrightarrow>
   (step (handleSubmit U s) = SGeo)
     = (normalizeAnswer U (answer s) \<noteq> []
        \<and> normalizeAnswer U (answer s) = normalizeAnswer U (capital c))"
  by (auto simp add: handleSubmit_def handleCorrect_def Let_def)

lemma handleGeoChoice_correct_iff:
  "geoQuestion s = Some q \<Longrightarrow>
   (correctCount (handleGeoChoice U option s) = correctCount s + 1)
     = (normalizeAnswer U option = normalizeAnswer U (GeoQuestion.answer q))"
  by (auto simp add: handleGeoChoice_def handleCorrect_def Let_def)

text \<open>
  The record \<open>antarctica\<close> has the empty capital. In the capital step the input "!!!" has
  the normal form of that capital, the empty string, and is not judged right: the guard
  on the empty normal form comes before the comparison, so the step stays \<open>SCapital\<close>,
  \<open>correctCount\<close> stays as it was and only the feedback is written.
\<close>

theorem handleSubmit_empty_forms_not_equal:
  "currentCountry (sampleState\<lparr>countries := [antarctica], step := SCapital,
                               answer := utf16 ''!!!''\<rparr>) = Some antarctica
   \<and> normalizeAnswer refEnv (utf16 ''!!!'') = normalizeAnswer refEnv (capital antarctica)
   \<and> step (handleSubmit refEnv (sampleState\<lparr>countries := [antarctica], step := SCapital,
                                              answer := utf16 ''!!!''\<rparr>)) = SCapital
   \<and> correctCount (handleSubmit refEnv (sampleState\<lparr>countries := [antarctica], step := SCapital,
                                                      answer := utf16 ''!!!''\<rparr>))
        = correctCount sampleState
   \<and> handleSubmit refEnv (sampleState\<lparr>countries := [antarctica], step := SCapital,
                                       answer := utf16 ''!!!''\<rparr>)
        = sampleState\<lparr>countries := [antarctica], step := SCapital, answer := utf16 ''!!!'',
                      feedback := utf16 ''Type your answer to keep moving.''\<rparr>"
proof -
  have cur: "currentCountry (sampleState\<lparr>countries := [antarctica], step := SCapital,
                               answer := utf16 ''!!!''\<rparr>) = Some antarctica"
    by (simp add: sampleState_def currentCountry_def)
  have typed: "normalizeAnswer refEnv (utf16 ''!!!'') = []"
    by (simp add: ref_simps)
  have expected: "normalizeAnswer refEnv (capital antarctica) = []"
    by (simp add: ref_simps antarctica_def)
  show ?thesis
    by (simp add: handleSubmit_def cur typed expected)
qed

text \<open>
  C2, as the code has it. For every string, \<open>normalizeAnswer\<close> returns lower-case ASCII
  letters and ASCII digits only. On a host whose tables decompose U+00E3 into \<open>a\<close> and
  U+0303 and map the ASCII capitals to their small letters, "S\u00e3o Paulo" (written with
  U+00E3), "sao paulo" and "saopaulo" have one normal form. With a current country,
  \<open>handleSubmit\<close> judges a typed answer right exactly when its normal form is not empty
  and is the normal form of the expected text, the country name in the step \<open>SCountry\<close>
  and the capital in the step \<open>SCapital\<close>; \<open>handleGeoChoice\<close> judges an option right
  exactly when its normal form is the normal form of the answer of the question.
\<close>

theorem normalizeAnswer_canonical:
  assumes "normalize_NFD U (utf16 ''S'' @ [0xe3] @ utf16 ''o Paulo'')
             = utf16 ''Sa'' @ [0x303] @ utf16 ''o Paulo''"
    and "normalize_NFD U (utf16 ''sao paulo'') = utf16 ''sao paulo''"
    and "toLowerCase U (utf16 ''Sao Paulo'') = utf16 ''sao paulo''"
    and "toLowerCase U (utf16 ''sao paulo'') = utf16 ''sao paulo''"
  shows "(\<forall>x \<in> set (normalizeAnswer U v). (0x61 \<le> x \<and> x \<le> 0x7a) \<or> (0x30 \<le> x \<and> x \<le> 0x39))
       \<and> normalizeAnswer U (utf16 ''S'' @ [0xe3] @ utf16 ''o Paulo'') = utf16 ''saopaulo''
       \<and> normalizeAnswer U (utf16 ''sao paulo'') = utf16 ''saopaulo''
       \<and> (step s = SCountry \<and> currentCountry s = Some c \<longrightarrow>
            (step (handleSubmit U s) = SCapital)
              = (normalizeAnswer U (answer s) \<noteq> []
                 \<and> normalizeAnswer U (answer s) = normalizeAnswer U (name c)))
       \<and> (step s = SCapital \<and> currentCountry s = Some c \<longrightarrow>
            (step (handleSubmit U s) = SGeo)
              = (normalizeAnswer U (answer s) \<noteq> []
                 \<and> normalizeAnswer U (answer s) = normalizeAnswer U (capital c)))
       \<and> (geoQuestion s = Some q \<longrightarrow>
            (correctCount (handleGeoChoice U option s) = correctCount s + 1)
              = (normalizeAnswer U option = normalizeAnswer U (GeoQuestion.answer q)))"
proof -
  have alnum: "\<forall>x \<in> set (normalizeAnswer U v). (0x61 \<le> x \<and> x \<le> 0x7a) \<or> (0x30 \<le> x \<and> x \<le> 0x39)"
    using normalizeAnswer_lowerAlnum [of _ U v] by (auto simp add: lowerAlnum_def)
  have strip: "filter (\<lambda>c. \<not> combiningMark c) (utf16 ''Sa'' @ [0x303] @ utf16 ''o Paulo'')
                 = utf16 ''Sao Paulo''"
    by (simp add: utf16_def combiningMark_def)
  have keep: "filter (\<lambda>c. \<not> combiningMark c) (utf16 ''sao paulo'') = utf16 ''sao paulo''"
    by (simp add: utf16_def combiningMark_def)
  have final: "filter lowerAlnum (utf16 ''sao paulo'') = utf16 ''saopaulo''"
    by (simp add: utf16_def lowerAlnum_def)
  have accented: "normalizeAnswer U (utf16 ''S'' @ [0xe3] @ utf16 ''o Paulo'') = utf16 ''saopaulo''"
    unfolding normalizeAnswer_def assms(1) strip assms(3) final ..
  have plain: "normalizeAnswer U (utf16 ''sao paulo'') = utf16 ''saopaulo''"
    unfolding normalizeAnswer_def assms(2) keep assms(4) final ..
  show ?thesis
    using alnum accented plain handleSubmit_country_step [of s c U]
      handleSubmit_capital_step [of s c U] handleGeoChoice_correct_iff [of s q U option]
    by blast
qed

theorem normalizeAnswer_canonical_witness:
  "normalizeAnswer refEnv (utf16 ''S'' @ [0xe3] @ utf16 ''o Paulo'') = utf16 ''saopaulo''
   \<and> normalizeAnswer refEnv (utf16 ''sao paulo'') = utf16 ''saopaulo''
   \<and> list_all (\<lambda>x. (0x61 \<le> x \<and> x \<le> 0x7a) \<or> (0x30 \<le> x \<and> x \<le> 0x39))
        (normalizeAnswer refEnv (utf16 ''Ivory-Coast 2''))
   \<and> step (handleSubmit refEnv (sampleState\<lparr>answer := utf16 ''BRAZIL''\<rparr>)) = SCapital
   \<and> step (handleSubmit refEnv (sampleState\<lparr>answer := utf16 ''!!!''\<rparr>)) \<noteq> SCapital
   \<and> step (handleSubmit refEnv (sampleState\<lparr>step := SCapital, answer := utf16 ''brasilia''\<rparr>))
        = SGeo
   \<and> correctCount (handleGeoChoice refEnv (utf16 ''no'') sampleState) = 2"
proof -
  have h1: "normalize_NFD refEnv (utf16 ''S'' @ [0xe3] @ utf16 ''o Paulo'')
              = utf16 ''Sa'' @ [0x303] @ utf16 ''o Paulo''"
    by (simp add: ref_simps)
  have h2: "normalize_NFD refEnv (utf16 ''sao paulo'') = utf16 ''sao paulo''"
    by (simp add: ref_simps)
  have h3: "toLowerCase refEnv (utf16 ''Sao Paulo'') = utf16 ''sao paulo''"
    by (simp add: ref_simps)
  have h4: "toLowerCase refEnv (utf16 ''sao paulo'') = utf16 ''sao paulo''"
    by (simp add: ref_simps)
  note canonical = normalizeAnswer_canonical [OF h1 h2 h3 h4]
  have a: "normalizeAnswer refEnv (utf16 ''BRAZIL'') = utf16 ''brazil''"
    and b: "normalizeAnswer refEnv (name brazil) = utf16 ''brazil''"
    and c: "normalizeAnswer refEnv (utf16 ''brasilia'') = utf16 ''brasilia''"
    and d: "normalizeAnswer refEnv (capital brazil) = utf16 ''brasilia''"
    and e: "normalizeAnswer refEnv (utf16 ''no'') = utf16 ''no''"
    and f: "normalizeAnswer refEnv (GeoQuestion.answer brazilLandlocked) = utf16 ''no''"
    and g: "normalizeAnswer refEnv (utf16 ''!!!'') = []"
    by (simp_all add: ref_simps brazil_def brazilLandlocked_def)
  have ne: "utf16 ''brazil'' \<noteq> []" "utf16 ''brasilia'' \<noteq> []"
    by (simp_all add: utf16_def)
  have cur: "currentCountry (sampleState\<lparr>answer := x\<rparr>) = Some brazil"
    "currentCountry (sampleState\<lparr>step := y, answer := x\<rparr>) = Some brazil" for x y
    by (simp_all add: sampleState_def currentCountry_def)
  have st: "step sampleState = SCountry" "geoQuestion sampleState = Some brazilLandlocked"
    "correctCount sampleState = 1"
    by (simp_all add: sampleState_def)
  have country: "step (handleSubmit refEnv (sampleState\<lparr>answer := utf16 ''BRAZIL''\<rparr>)) = SCapital"
    using canonical [where s = "sampleState\<lparr>answer := utf16 ''BRAZIL''\<rparr>" and c = brazil] ne
    by (simp add: a b cur st)
  have blank: "step (handleSubmit refEnv (sampleState\<lparr>answer := utf16 ''!!!''\<rparr>)) \<noteq> SCapital"
    using canonical [where s = "sampleState\<lparr>answer := utf16 ''!!!''\<rparr>" and c = brazil]
    by (simp add: g cur st)
  have capital:
    "step (handleSubmit refEnv (sampleState\<lparr>step := SCapital, answer := utf16 ''brasilia''\<rparr>)) = SGeo"
    using canonical [where s = "sampleState\<lparr>step := SCapital, answer := utf16 ''brasilia''\<rparr>"
        and c = brazil] ne
    by (simp add: c d cur st)
  have geo: "correctCount (handleGeoChoice refEnv (utf16 ''no'') sampleState) = 2"
    using canonical [where s = sampleState and q = brazilLandlocked and option = "utf16 ''no''"]
    by (simp add: e f st)
  have alnum: "list_all (\<lambda>x. (0x61 \<le> x \<and> x \<le> 0x7a) \<or> (0x30 \<le> x \<and> x \<le> 0x39))
        (normalizeAnswer refEnv (utf16 ''Ivory-Coast 2''))"
    using canonical [where v = "utf16 ''Ivory-Coast 2''"] by (simp add: list_all_iff)
  from canonical country blank capital geo alnum show ?thesis by simp
qed

section \<open>Inputs that are not counted\<close>

lemma normalizeAnswer_whitespace:
  assumes ws: "\<forall>x \<in> set v. strWhiteSpace x"
    and nfd: "normalize_NFD U v = v" and low: "toLowerCase U v = v"
  shows "normalizeAnswer U v = []"
proof -
  have keep: "filter (\<lambda>c. \<not> combiningMark c) v = v"
    using ws by (auto simp add: filter_id_conv strWhiteSpace_def combiningMark_def)
  have none: "filter lowerAlnum v = []"
    using ws by (auto simp add: filter_empty_conv strWhiteSpace_def lowerAlnum_def)
  show ?thesis
    by (simp add: normalizeAnswer_def nfd keep low none)
qed

text \<open>
  The input "!!!" is neither empty nor made of white space, and \<open>handleSubmit\<close>
  rejects it all the same: the state changes in its feedback only, and \<open>attempts\<close>
  stays as it was.
\<close>

theorem handleSubmit_punctuation_rejected:
  "answer (sampleState\<lparr>answer := utf16 ''!!!''\<rparr>) \<noteq> []
   \<and> \<not> (\<forall>x \<in> set (answer (sampleState\<lparr>answer := utf16 ''!!!''\<rparr>)). strWhiteSpace x)
   \<and> currentCountry (sampleState\<lparr>answer := utf16 ''!!!''\<rparr>) = Some brazil
   \<and> attempts (handleSubmit refEnv (sampleState\<lparr>answer := utf16 ''!!!''\<rparr>))
        = attempts (sampleState\<lparr>answer := utf16 ''!!!''\<rparr>)
   \<and> handleSubmit refEnv (sampleState\<lparr>answer := utf16 ''!!!''\<rparr>)
        = sampleState\<lparr>answer := utf16 ''!!!'',
                      feedback := utf16 ''Type your answer to keep moving.''\<rparr>"
proof -
  have empty: "normalizeAnswer refEnv (utf16 ''!!!'') = []"
    by (simp add: ref_simps)
  have cur: "currentCountry (sampleState\<lparr>answer := utf16 ''!!!''\<rparr>) = Some brazil"
    by (simp add: sampleState_def currentCountry_def)
  have shape: "utf16 ''!!!'' \<noteq> []" "\<not> (\<forall>x \<in> set (utf16 ''!!!''). strWhiteSpace x)"
    by (simp_all add: utf16_def strWhiteSpace_def)
  show ?thesis
    using shape by (simp add: handleSubmit_def cur empty)
qed

text \<open>
  C3, as the code has it. With a current country, \<open>handleSubmit\<close> rejects exactly the
  inputs whose normal form is empty: it writes the feedback and nothing else, and no
  attempt is counted. Every input with a non-empty normal form adds one to
  \<open>attempts\<close>. An input of white space that the host's decomposition and lower-casing
  leave as it is has an empty normal form, so the empty and the blank inputs are
  among the rejected ones; so is every input without an ASCII letter or digit.
\<close>

theorem handleSubmit_rejects_empty_normal_form:
  assumes "currentCountry s = Some c"
  shows "(normalizeAnswer U (answer s) = [] \<longrightarrow>
            handleSubmit U s = s\<lparr>feedback := utf16 ''Type your answer to keep moving.''\<rparr>)
       \<and> (normalizeAnswer U (answer s) \<noteq> [] \<longrightarrow>
            attempts (handleSubmit U s) = attempts s + 1)
       \<and> ((\<forall>x \<in> set (answer s). strWhiteSpace x) \<and> normalize_NFD U (answer s) = answer s
            \<and> toLowerCase U (answer s) = answer s \<longrightarrow>
            normalizeAnswer U (answer s) = [])"
proof -
  have rejected: "normalizeAnswer U (answer s) = [] \<Longrightarrow>
      handleSubmit U s = s\<lparr>feedback := utf16 ''Type your answer to keep moving.''\<rparr>"
    using assms by (simp add: handleSubmit_def)
  have counted: "normalizeAnswer U (answer s) \<noteq> [] \<Longrightarrow>
      attempts (handleSubmit U s) = attempts s + 1"
    using assms by (simp add: handleSubmit_def handleCorrect_def Let_def)
  from rejected counted normalizeAnswer_whitespace [of "answer s" U] show ?thesis
    by blast
qed

theorem handleSubmit_rejects_empty_normal_form_witness:
  "handleSubmit refEnv (sampleState\<lparr>answer := utf16 ''   ''\<rparr>)
     = sampleState\<lparr>answer := utf16 ''   '', feedback := utf16 ''Type your answer to keep moving.''\<rparr>
   \<and> normalizeAnswer refEnv (utf16 ''   '') = []
   \<and> attempts (handleSubmit refEnv (sampleState\<lparr>answer := utf16 ''Peru''\<rparr>)) = 4"
proof -
  have cur: "currentCountry (sampleState\<lparr>answer := x\<rparr>) = Some brazil" for x
    by (simp add: sampleState_def currentCountry_def)
  have ws: "\<forall>x \<in> set (utf16 ''   ''). strWhiteSpace x"
    by (simp add: utf16_def strWhiteSpace_def)
  have same: "normalize_NFD refEnv (utf16 ''   '') = utf16 ''   ''"
    "toLowerCase refEnv (utf16 ''   '') = utf16 ''   ''"
    by (simp_all add: ref_simps)
  have peru: "normalizeAnswer refEnv (utf16 ''Peru'') \<noteq> []"
    by (simp add: ref_simps)
  have att: "attempts sampleState = 3"
    by (simp add: sampleState_def)
  note blank = handleSubmit_rejects_empty_normal_form [OF cur, of refEnv "utf16 ''   ''"]
  note typed = handleSubmit_rejects_empty_normal_form [OF cur, of refEnv "utf16 ''Peru''"]
  have normal: "normalizeAnswer refEnv (utf16 ''   '') = []"
    using blank ws same by simp
  show ?thesis
    using blank typed normal peru by (simp add: att)
qed

section \<open>A wrong choice in the geography step\<close>

text \<open>
  C6. In the step \<open>SGeo\<close> with a question \<open>q\<close>, choosing an option whose normal form
  differs from that of the answer of \<open>q\<close> sets \<open>streak\<close> to 0 and writes the
  feedback; the step is still \<open>SGeo\<close> and the question is still \<open>q\<close>, with its prompt
  and its two options; \<open>levelIndex\<close>, \<open>correctCount\<close> and the pool \<open>countries\<close> are
  as before. The last conjunct gives the whole state: beside the feedback and the
  streak, the handler records the option chosen and counts the attempt.
\<close>

theorem handleGeoChoice_wrong_option:
  assumes "step s = SGeo" and "geoQuestion s = Some q"
    and "normalizeAnswer U option \<noteq> normalizeAnswer U (GeoQuestion.answer q)"
  shows "streak (handleGeoChoice U option s) = 0
       \<and> feedback (handleGeoChoice U option s)
            = utf16 ''Geography check missed. Try another option.''
       \<and> step (handleGeoChoice U option s) = SGeo
       \<and> geoQuestion (handleGeoChoice U option s) = Some q
       \<and> levelIndex (handleGeoChoice U option s) = levelIndex s
       \<and> correctCount (handleGeoChoice U option s) = correctCount s
       \<and> countries (handleGeoChoice U option s) = countries s
       \<and> handleGeoChoice U option s
            = s\<lparr>selectedOption := Some option, attempts := attempts s + 1,
                feedback := utf16 ''Geography check missed. Try another option.'',
                streak := 0\<rparr>"
  using assms by (simp add: handleGeoChoice_def Let_def)

theorem handleGeoChoice_wrong_option_witness:
  "handleGeoChoice refEnv (utf16 ''Yes'') (sampleState\<lparr>step := SGeo\<rparr>)
     = sampleState\<lparr>step := SGeo, selectedOption := Some (utf16 ''Yes''), attempts := 4,
                   feedback := utf16 ''Geography check missed. Try another option.'',
                   streak := 0\<rparr>
   \<and> geoQuestion (handleGeoChoice refEnv (utf16 ''Yes'') (sampleState\<lparr>step := SGeo\<rparr>))
        = Some brazilLandlocked"
proof -
  have st: "step (sampleState\<lparr>step := SGeo\<rparr>) = SGeo" by simp
  have gq: "geoQuestion (sampleState\<lparr>step := SGeo\<rparr>) = Some brazilLandlocked"
    by (simp add: sampleState_def)
  have differ: "normalizeAnswer refEnv (utf16 ''Yes'')
                  \<noteq> normalizeAnswer refEnv (GeoQuestion.answer brazilLandlocked)"
    by (simp add: ref_simps brazilLandlocked_def)
  have att: "attempts sampleState = 3" by (simp add: sampleState_def)
  show ?thesis
    using handleGeoChoice_wrong_option [OF st gq differ] gq by (simp add: att)
qed

section \<open>Right answers never outnumber attempts\<close>

lemma remember_counts [simp]:
  "correctCount (remember U s) = correctCount s" "attempts (remember U s) = attempts s"
  by (simp_all add: remember_def Let_def split: option.splits prod.splits)

lemma handleSubmit_counts:
  "correctCount (handleSubmit U s) \<le> correctCount s + 1
   \<and> attempts (handleSubmit U s) \<le> attempts s + 1
   \<and> attempts s \<le> attempts (handleSubmit U s)
   \<and> correctCount s \<le> correctCount (handleSubmit U s)
   \<and> (correctCount (handleSubmit U s) = correctCount s + 1 \<longrightarrow>
        attempts (handleSubmit U s) = attempts s + 1)"
  by (simp add: handleSubmit_def handleCorrect_def Let_def split: option.splits)

lemma handleGeoChoice_counts:
  "correctCount (handleGeoChoice U option s) \<le> correctCount s + 1
   \<and> correctCount s \<le> correctCount (handleGeoChoice U option s)
   \<and> attempts s \<le> attempts (handleGeoChoice U option s)
   \<and> (correctCount (handleGeoChoice U option s) = correctCount s + 1 \<longrightarrow>
        attempts (handleGeoChoice U option s) = attempts s + 1)"
  by (simp add: handleGeoChoice_def handleCorrect_def Let_def split: option.splits)

lemma handleAdvance_counts:
  "correctCount (handleAdvance U rendered s) = correctCount s
   \<and> attempts (handleAdvance U rendered s) = attempts s"
  by (simp add: handleAdvance_def)

lemma restart_counts:
  "correctCount (restart U s) = 0 \<and> attempts (restart U s) = 0"
  by (simp add: restart_def Let_def split: prod.splits)

lemma initialState_counts:
  "correctCount (initialState U) = 0 \<and> attempts (initialState U) = 0"
  by (simp add: initialState_def Let_def split: prod.splits)

text \<open>
  C8. \<open>correctCount \<le> attempts\<close> holds in the initial state and after \<open>restart\<close>, and
  \<open>handleSubmit\<close>, \<open>handleGeoChoice\<close> and \<open>handleAdvance\<close> (the closure of any render) keep
  it. A handler that
  changes \<open>correctCount\<close> adds one to it and, in the same event, one to \<open>attempts\<close>.
\<close>

theorem correctCount_le_attempts:
  "countsOK (initialState U)
   \<and> (countsOK s \<longrightarrow> countsOK (handleSubmit U s))
   \<and> (countsOK s \<longrightarrow> countsOK (handleGeoChoice U option s))
   \<and> (countsOK s \<longrightarrow> countsOK (handleAdvance U rendered s))
   \<and> countsOK (restart U s)
   \<and> (correctCount (handleSubmit U s) \<noteq> correctCount s \<longrightarrow>
        correctCount (handleSubmit U s) = correctCount s + 1
        \<and> attempts (handleSubmit U s) = attempts s + 1)
   \<and> (correctCount (handleGeoChoice U option s) \<noteq> correctCount s \<longrightarrow>
        correctCount (handleGeoChoice U option s) = correctCount s + 1
        \<and> attempts (handleGeoChoice U option s) = attempts s + 1)"
proof -
  have init: "countsOK (initialState U)"
    using initialState_counts [of U] by (simp add: countsOK_def)
  have again: "countsOK (restart U s)"
    using restart_counts [of U s] by (simp add: countsOK_def)
  have adv: "countsOK s \<Longrightarrow> countsOK (handleAdvance U rendered s)"
    using handleAdvance_counts [of U rendered s] by (simp add: countsOK_def)
  have sub: "countsOK s \<Longrightarrow> countsOK (handleSubmit U s)"
    using handleSubmit_counts [of U s] unfolding countsOK_def by linarith
  have geo: "countsOK s \<Longrightarrow> countsOK (handleGeoChoice U option s)"
    using handleGeoChoice_counts [of U option s] unfolding countsOK_def by linarith
  have sub1: "correctCount (handleSubmit U s) \<noteq> correctCount s \<Longrightarrow>
      correctCount (handleSubmit U s) = correctCount s + 1
      \<and> attempts (handleSubmit U s) = attempts s + 1"
    using handleSubmit_counts [of U s] by linarith
  have geo1: "correctCount (handleGeoChoice U option s) \<noteq> correctCount s \<Longrightarrow>
      correctCount (handleGeoChoice U option s) = correctCount s + 1
      \<and> attempts (handleGeoChoice U option s) = attempts s + 1"
    using handleGeoChoice_counts [of U option s] by linarith
  from init again adv sub geo sub1 geo1 show ?thesis by blast
qed

theorem correctCount_le_attempts_witness:
  "countsOK (initialState refEnv)
   \<and> countsOK (handleSubmit refEnv (sampleState\<lparr>answer := utf16 ''BRAZIL''\<rparr>))
   \<and> countsOK (handleGeoChoice refEnv (utf16 ''No'') sampleState)
   \<and> countsOK (handleAdvance refEnv sampleState sampleState)
   \<and> countsOK (restart refEnv sampleState)
   \<and> correctCount (handleSubmit refEnv (sampleState\<lparr>answer := utf16 ''BRAZIL''\<rparr>)) = 2
   \<and> attempts (handleSubmit refEnv (sampleState\<lparr>answer := utf16 ''BRAZIL''\<rparr>)) = 4
   \<and> correctCount (handleGeoChoice refEnv (utf16 ''No'') sampleState) = 2
   \<and> attempts (handleGeoChoice refEnv (utf16 ''No'') sampleState) = 4"
proof -
  have ok: "countsOK sampleState" "countsOK (sampleState\<lparr>answer := x\<rparr>)" for x
    by (simp_all add: countsOK_def sampleState_def)
  have vals: "correctCount sampleState = 1" "attempts sampleState = 3"
    by (simp_all add: sampleState_def)
  have a: "normalizeAnswer refEnv (utf16 ''BRAZIL'') = utf16 ''brazil''"
    and b: "normalizeAnswer refEnv (name brazil) = utf16 ''brazil''"
    and e: "normalizeAnswer refEnv (utf16 ''No'') = utf16 ''no''"
    and f: "normalizeAnswer refEnv (GeoQuestion.answer brazilLandlocked) = utf16 ''no''"
    by (simp_all add: ref_simps brazil_def brazilLandlocked_def)
  have ne: "utf16 ''brazil'' \<noteq> []" by (simp add: utf16_def)
  have cur: "currentCountry (sampleState\<lparr>answer := x\<rparr>) = Some brazil" for x
    by (simp add: sampleState_def currentCountry_def)
  have gq: "geoQuestion sampleState = Some brazilLandlocked"
    and st: "step sampleState = SCountry"
    by (simp_all add: sampleState_def)
  have right: "correctCount (handleSubmit refEnv (sampleState\<lparr>answer := utf16 ''BRAZIL''\<rparr>)) = 2"
    using ne by (simp add: handleSubmit_def handleCorrect_def Let_def cur a b st vals)
  have chosen: "correctCount (handleGeoChoice refEnv (utf16 ''No'') sampleState) = 2"
    by (simp add: handleGeoChoice_def handleCorrect_def Let_def gq e f vals)
  note typed = correctCount_le_attempts [of refEnv "sampleState\<lparr>answer := utf16 ''BRAZIL''\<rparr>"
      "utf16 ''No''" sampleState]
  note clicked = correctCount_le_attempts [of refEnv sampleState "utf16 ''No''" sampleState]
  show ?thesis
    using typed clicked ok right chosen by (simp add: vals)
qed

section \<open>Rounding to a double\<close>

text \<open>The exponent \<open>expo\<close> finds is the binary exponent, so \<open>fl\<close> keeps 53 significant
  bits; rounding moves a value by at most its \<open>2\<^sup>-\<^sup>5\<^sup>3\<close>-th part.\<close>

lemma ilog2_bounds: "0 < n \<Longrightarrow> 2 ^ ilog2 n \<le> n \<and> n < 2 ^ Suc (ilog2 n)"
proof (induction n rule: ilog2.induct)
  case (1 n)
  show ?case
  proof (cases "n < 2")
    case True
    with "1.prems" have "n = 1" by simp
    then show ?thesis by (simp add: ilog2.simps)
  next
    case False
    then have pos: "0 < n div 2" by simp
    from "1.IH" [OF False pos]
    have lo: "2 ^ ilog2 (n div 2) \<le> n div 2" and hi: "n div 2 < 2 ^ Suc (ilog2 (n div 2))"
      by simp_all
    have unfold: "ilog2 n = Suc (ilog2 (n div 2))"
      using False by (subst ilog2.simps) simp
    from lo have "2 * 2 ^ ilog2 (n div 2) \<le> n" by linarith
    moreover from hi have "n < 2 * 2 ^ Suc (ilog2 (n div 2))" by linarith
    ultimately show ?thesis by (simp add: unfold)
  qed
qed

lemma pow2_powi: "pow2 e = 2 powi e"
proof (cases "0 \<le> e")
  case True
  then show ?thesis by (simp add: pow2_def power_int_def)
next
  case False
  then show ?thesis by (simp add: pow2_def power_int_def inverse_eq_divide power_one_over)
qed

lemma pow2_pos [simp]: "0 < pow2 e"
  by (simp add: pow2_def)

lemma pow2_add: "pow2 (a + b) = pow2 a * pow2 b"
  by (simp add: pow2_powi power_int_add)

lemma pow2_mono: "a \<le> b \<Longrightarrow> pow2 a \<le> pow2 b"
  by (simp add: pow2_powi power_int_increasing)

lemma pow2_strict_mono: "a < b \<Longrightarrow> pow2 a < pow2 b"
  by (simp add: pow2_powi power_int_strict_increasing)

lemma pow2_nat: "pow2 (int n) = 2 ^ n"
  by (simp add: pow2_def)

lemma pow2_neg_nat: "pow2 (- int n) = 1 / 2 ^ n"
  by (simp add: pow2_powi power_int_minus divide_inverse)

lemma expo_bounds:
  assumes "0 < x"
  shows "pow2 (expo x) \<le> x \<and> x < pow2 (expo x + 1)"
proof (cases "1 \<le> x")
  case True
  define n where "n = nat \<lfloor>x\<rfloor>"
  from True have n: "0 < n" "real n \<le> x" "x < real n + 1"
    unfolding n_def by linarith+
  from ilog2_bounds [OF n(1)] have lo: "2 ^ ilog2 n \<le> n" and hi': "n < 2 ^ Suc (ilog2 n)"
    by blast+
  from hi' have hi: "n + 1 \<le> 2 ^ Suc (ilog2 n)" by linarith
  from lo have "real (2 ^ ilog2 n) \<le> real n" by (simp only: of_nat_le_iff)
  then have "(2::real) ^ ilog2 n \<le> real n" by simp
  with n have low: "(2::real) ^ ilog2 n \<le> x" by linarith
  from hi have "real (n + 1) \<le> real (2 ^ Suc (ilog2 n))" by (simp only: of_nat_le_iff)
  then have "real n + 1 \<le> 2 ^ Suc (ilog2 n)" by simp
  with n have high: "x < 2 ^ Suc (ilog2 n)" by linarith
  have e: "expo x = int (ilog2 n)"
    using True by (simp add: expo_def n_def)
  have "pow2 (expo x + 1) = 2 ^ Suc (ilog2 n)"
    using pow2_nat [of "Suc (ilog2 n)"] by (simp add: e add.commute)
  with low high show ?thesis
    by (simp add: e pow2_nat)
next
  case False
  define m where "m = nat \<lceil>1 / x\<rceil>"
  from False assms have big: "1 < 1 / x" by simp
  then have m: "2 \<le> m" "1 / x \<le> real m" "real m - 1 < 1 / x"
    unfolding m_def by linarith+
  then have pos: "0 < m - 1" by simp
  from ilog2_bounds [OF pos] have lo: "2 ^ ilog2 (m - 1) \<le> m - 1"
    and hi': "m - 1 < 2 ^ Suc (ilog2 (m - 1))"
    by blast+
  from hi' m(1) have hi: "m \<le> 2 ^ Suc (ilog2 (m - 1))" by linarith
  have c: "clog2 m = Suc (ilog2 (m - 1))"
    using m by (simp add: clog2_def)
  have e: "expo x = - int (Suc (ilog2 (m - 1)))"
    using False by (simp add: expo_def m_def [symmetric] c)
  from hi have "real m \<le> real (2 ^ Suc (ilog2 (m - 1)))" by (simp only: of_nat_le_iff)
  then have "real m \<le> 2 ^ Suc (ilog2 (m - 1))" by simp
  with m have "1 / x \<le> 2 ^ Suc (ilog2 (m - 1))" by linarith
  with assms have low: "1 / 2 ^ Suc (ilog2 (m - 1)) \<le> x"
    by (simp add: field_simps)
  from lo have "real (2 ^ ilog2 (m - 1)) \<le> real (m - 1)" by (simp only: of_nat_le_iff)
  then have "(2::real) ^ ilog2 (m - 1) \<le> real (m - 1)" by simp
  with m have "2 ^ ilog2 (m - 1) < 1 / x" by (simp add: of_nat_diff)
  with assms have high: "x < 1 / 2 ^ ilog2 (m - 1)"
    by (simp add: field_simps)
  have p1: "pow2 (expo x) = 1 / 2 ^ Suc (ilog2 (m - 1))"
    unfolding e by (rule pow2_neg_nat)
  have "expo x + 1 = - int (ilog2 (m - 1))" by (simp add: e)
  then have p2: "pow2 (expo x + 1) = 1 / 2 ^ ilog2 (m - 1)"
    by (simp only: pow2_neg_nat)
  from low high show ?thesis
    unfolding p1 p2 by blast
qed

lemma expo_unique:
  assumes "pow2 e \<le> x" and "x < pow2 (e + 1)"
  shows "expo x = e"
proof -
  from assms(1) have pos: "0 < x" using pow2_pos [of e] by linarith
  note b = expo_bounds [OF pos]
  have "\<not> expo x < e"
  proof
    assume "expo x < e"
    then have "pow2 (expo x + 1) \<le> pow2 e" by (intro pow2_mono) simp
    with b assms show False by linarith
  qed
  moreover have "\<not> e < expo x"
  proof
    assume "e < expo x"
    then have "pow2 (e + 1) \<le> pow2 (expo x)" by (intro pow2_mono) simp
    with b assms show False by linarith
  qed
  ultimately show ?thesis by simp
qed

lemma roundTiesToEven_error: "\<bar>real_of_int (roundTiesToEven y) - y\<bar> \<le> 1 / 2"
proof -
  have "real_of_int \<lfloor>y\<rfloor> \<le> y" "y < real_of_int \<lfloor>y\<rfloor> + 1" by linarith+
  then show ?thesis
    unfolding roundTiesToEven_def Let_def by (simp split: if_splits)
qed

lemma flPos_eval:
  assumes "pow2 e \<le> x" and "x < pow2 (e + 1)"
  shows "flPos x = real_of_int (roundTiesToEven (x / pow2 (e - 52))) * pow2 (e - 52)"
  by (simp add: flPos_def Let_def expo_unique [OF assms])

lemma fl_eval:
  assumes "pow2 e \<le> x" and "x < pow2 (e + 1)"
  shows "fl x = real_of_int (roundTiesToEven (x / pow2 (e - 52))) * pow2 (e - 52)"
proof -
  from assms(1) have "0 < x" using pow2_pos [of e] by linarith
  then show ?thesis by (simp add: fl_def flPos_eval [OF assms])
qed

lemma flPos_error:
  assumes "0 < x"
  shows "\<bar>flPos x - x\<bar> \<le> x / 2 ^ 53"
proof -
  define u where "u = pow2 (expo x - 52)"
  define r where "r = real_of_int (roundTiesToEven (x / u))"
  have u: "0 < u" by (simp add: u_def)
  have rounded: "flPos x = r * u"
    by (simp add: flPos_def Let_def u_def r_def)
  have "\<bar>r - x / u\<bar> \<le> 1 / 2"
    unfolding r_def by (rule roundTiesToEven_error)
  then have "\<bar>r - x / u\<bar> * u \<le> 1 / 2 * u"
    using u by (intro mult_right_mono) simp_all
  moreover have "(r - x / u) * u = r * u - x"
    using u by (simp add: field_simps)
  then have "\<bar>r - x / u\<bar> * u = \<bar>r * u - x\<bar>"
    using u abs_mult_pos [of u "r - x / u"] by simp
  ultimately have err: "\<bar>flPos x - x\<bar> \<le> u / 2"
    unfolding rounded by simp
  have "u = pow2 (expo x) * pow2 (- 52)"
    unfolding u_def using pow2_add [of "expo x" "- 52"] by simp
  also have "pow2 (- 52) = 1 / 2 ^ 52" by (simp add: pow2_def)
  finally have "u / 2 = pow2 (expo x) / 2 ^ 53" by simp
  also have "\<dots> \<le> x / 2 ^ 53"
    using expo_bounds [OF assms] by (simp add: divide_right_mono)
  finally show ?thesis using err by linarith
qed

lemma fl_error:
  assumes "0 \<le> x"
  shows "\<bar>fl x - x\<bar> \<le> x / 2 ^ 53"
proof (cases "x = 0")
  case True
  then show ?thesis by (simp add: fl_def)
next
  case False
  with assms have "0 < x" by simp
  with flPos_error [OF this] show ?thesis by (simp add: fl_def)
qed

text \<open>A value below 1 times a count below \<open>2\<^sup>5\<^sup>3\<close> stays below the count after rounding:
  the index \<^verbatim>\<open>Math.floor(Math.random() * n)\<close> is below \<open>n\<close>.\<close>

lemma roundTiesToEven_below:
  assumes "y < real_of_int N - 1 / 2"
  shows "roundTiesToEven y \<le> N - 1"
proof -
  from roundTiesToEven_error [of y] have "real_of_int (roundTiesToEven y) \<le> y + 1 / 2"
    by linarith
  with assms have "real_of_int (roundTiesToEven y) < real_of_int N" by linarith
  then show ?thesis by linarith
qed

lemma fl_product_below:
  assumes r: "0 \<le> r" "r \<le> 1 - 1 / 2 ^ 53" and n: "0 < n" "n < 2 ^ 53"
  shows "fl (r * real n) < real n"
proof (cases "r * real n = 0")
  case True
  have "fl 0 = 0" by (simp add: fl_def)
  then have "fl (r * real n) = 0" by (simp only: True)
  with n(1) show ?thesis by simp
next
  case False
  define x where "x = r * real n"
  from r(1) have "0 \<le> r * real n" by simp
  with False have pos: "0 < x" unfolding x_def by linarith
  have "r * real n \<le> (1 - 1 / 2 ^ 53) * real n"
    using r(2) by (intro mult_right_mono) simp_all
  then have upper: "x \<le> real n - real n / 2 ^ 53"
    by (simp add: x_def algebra_simps)
  with n(1) have below: "x < real n" by simp
  note b = expo_bounds [OF pos]
  from n(2) have "real n < real (2 ^ 53)" by (simp only: of_nat_less_iff)
  then have n53: "real n < 2 ^ 53" by simp
  have p53: "pow2 53 = 2 ^ 53" and p52: "pow2 52 = 2 ^ 52"
    by (simp_all add: pow2_def)
  from below b n53 have "pow2 (expo x) < pow2 53"
    unfolding p53 by linarith
  then have "\<not> 53 \<le> expo x"
    using pow2_mono [of 53 "expo x"] by linarith
  then have small: "expo x \<le> 52" by simp
  define k where "k = nat (52 - expo x)"
  have ek: "expo x - 52 = - int k" using small by (simp add: k_def)
  have u: "pow2 (expo x - 52) = 1 / 2 ^ k"
    unfolding ek by (rule pow2_neg_nat)
  have "pow2 (expo x) * pow2 (int k) = pow2 52"
    using pow2_add [of "expo x" "int k"] small by (simp add: k_def)
  then have scale: "pow2 (expo x) * 2 ^ k = 2 ^ 52"
    by (simp only: pow2_nat p52)
  define q where "q = roundTiesToEven (x * 2 ^ k)"
  have rounded: "fl x = real_of_int q / 2 ^ k"
    using pos by (simp add: fl_def flPos_def Let_def u q_def)
  from b below have "pow2 (expo x) * 2 ^ k < real n * 2 ^ k"
    by (intro mult_strict_right_mono) simp_all
  with scale have big: "2 ^ 52 < real n * 2 ^ k" by simp
  from upper have "x * 2 ^ k \<le> (real n - real n / 2 ^ 53) * 2 ^ k"
    by (intro mult_right_mono) simp_all
  also have "\<dots> = real n * 2 ^ k - real n * 2 ^ k / 2 ^ 53"
    by (simp add: algebra_simps)
  also have "\<dots> < real n * 2 ^ k - 1 / 2"
  proof -
    from big have "2 ^ 52 / 2 ^ 53 < real n * 2 ^ k / 2 ^ 53"
      by (intro divide_strict_right_mono) simp_all
    then show ?thesis by simp
  qed
  finally have "x * 2 ^ k < real_of_int (int n * 2 ^ k) - 1 / 2" by simp
  then have "q \<le> int n * 2 ^ k - 1"
    unfolding q_def by (rule roundTiesToEven_below)
  then have "real_of_int q \<le> real_of_int (int n * 2 ^ k - 1)" by (simp only: of_int_le_iff)
  then have "real_of_int q \<le> real n * 2 ^ k - 1" by simp
  then have "real_of_int q / 2 ^ k \<le> (real n * 2 ^ k - 1) / 2 ^ k"
    by (intro divide_right_mono) simp_all
  also have "\<dots> = real n - 1 / 2 ^ k" by (simp add: field_simps)
  also have "\<dots> < real n" by simp
  finally have "fl x < real n" by (simp only: rounded)
  then show ?thesis by (simp only: x_def)
qed

lemma floor_fl_product_less:
  assumes "0 \<le> r" "r \<le> 1 - 1 / 2 ^ 53" "0 < n" "n < 2 ^ 53"
  shows "nat \<lfloor>fl (r * real n)\<rfloor> < n"
proof -
  from fl_product_below [OF assms] have "\<lfloor>fl (r * real n)\<rfloor> < int n"
    by (simp add: floor_less_iff)
  with assms(3) show ?thesis by linarith
qed

lemma fl_nonneg:
  assumes "0 \<le> x"
  shows "0 \<le> fl x"
proof -
  from fl_error [OF assms] have "x - x / 2 ^ 53 \<le> fl x" by linarith
  moreover have "x / 2 ^ 53 \<le> x" using assms by (simp add: field_simps)
  ultimately show ?thesis by linarith
qed

text \<open>The two roundings of \<open>(c / a) * 100\<close> move the value by less than \<open>300 / 2\<^sup>5\<^sup>3\<close>.\<close>

lemma percent_error:
  fixes c a :: nat
  assumes a: "0 < a" and ca: "c \<le> a"
  shows "\<bar>fl (fl (real c / real a) * 100) - 100 * real c / real a\<bar> \<le> 300 / 2 ^ 53"
proof -
  define q where "q = real c / real a"
  define x1 where "x1 = fl q"
  have q: "0 \<le> q" "q \<le> 1"
    using a ca by (simp_all add: q_def)
  from fl_error [OF q(1)] have e1: "\<bar>x1 - q\<bar> \<le> q / 2 ^ 53"
    by (simp add: x1_def)
  have tiny: "q / 2 ^ 53 \<le> 1 / 2 ^ 53"
    using q(2) by (simp add: divide_right_mono)
  from fl_nonneg [OF q(1)] have x1: "0 \<le> x1" by (simp add: x1_def)
  have unit: "(1::real) / 2 ^ 53 \<le> 1" by simp
  from e1 tiny q(2) unit have x1_le: "x1 \<le> 2" by linarith
  have y: "0 \<le> x1 * 100" using x1 by simp
  from fl_error [OF y] have e2: "\<bar>fl (x1 * 100) - x1 * 100\<bar> \<le> x1 * 100 / 2 ^ 53" .
  have "x1 * 100 / 2 ^ 53 \<le> 2 * 100 / 2 ^ 53"
    using x1_le by (intro divide_right_mono mult_right_mono) simp_all
  with e2 have e2': "\<bar>fl (x1 * 100) - x1 * 100\<bar> \<le> 200 / 2 ^ 53" by simp
  from e1 tiny have "\<bar>x1 - q\<bar> * 100 \<le> 1 / 2 ^ 53 * 100" by (intro mult_right_mono) linarith+
  then have e1': "\<bar>x1 * 100 - 100 * q\<bar> \<le> 100 / 2 ^ 53"
    by (simp add: abs_if split: if_splits)
  from e1' e2' have "\<bar>fl (x1 * 100) - 100 * q\<bar> \<le> 300 / 2 ^ 53" by linarith
  then show ?thesis by (simp add: x1_def q_def)
qed

lemma percent_rounding:
  fixes c a :: nat
  assumes a: "0 < a" and ca: "c \<le> a" and small: "real a < 10 ^ 12"
  defines "t \<equiv> 100 * real c / real a"
  defines "shown \<equiv> Math_round (fl (fl (real c / real a) * 100))"
  shows "(shown = Math_round t \<or> shown = Math_round t - 1)
       \<and> (real_of_int (Math_round t) \<noteq> t + 1 / 2 \<longrightarrow> shown = Math_round t)"
proof -
  define x2 where "x2 = fl (fl (real c / real a) * 100)"
  define N where "N = \<lfloor>t + 1 / 2\<rfloor>"
  define M where "M = 200 * int c + int a"
  define D where "D = 2 * int a"
  have D: "0 < real_of_int D" using a by (simp add: D_def)
  have err: "\<bar>x2 - t\<bar> \<le> 300 / 2 ^ 53"
    unfolding x2_def t_def by (rule percent_error [OF a ca])
  have "real_of_int D < 2 * 10 ^ 12" using small by (simp add: D_def)
  then have "1 / (2 * 10 ^ 12) < 1 / real_of_int D"
    using D by (intro divide_strict_left_mono) simp_all
  moreover have "(300::real) / 2 ^ 53 < 1 / (2 * 10 ^ 12)" by simp
  ultimately have eps: "300 / 2 ^ 53 < 1 / real_of_int D" by linarith
  have grid: "t + 1 / 2 = real_of_int M / real_of_int D"
    using a by (simp add: t_def M_def D_def field_simps)
  have N: "real_of_int N \<le> t + 1 / 2" "t + 1 / 2 < real_of_int N + 1"
    unfolding N_def by linarith+
  have step: "real_of_int (z + 1) / real_of_int D = real_of_int z / real_of_int D + 1 / real_of_int D"
    for z by (simp add: add_divide_distrib)
  have upper: "t + 1 / 2 + 1 / real_of_int D \<le> real_of_int N + 1"
  proof -
    from N(2) grid have "real_of_int M / real_of_int D < real_of_int (N + 1)" by simp
    then have "real_of_int M < real_of_int (N + 1) * real_of_int D"
      using D by (simp add: pos_divide_less_eq)
    then have "real_of_int M < real_of_int ((N + 1) * D)" by simp
    then have "M < (N + 1) * D" by (simp only: of_int_less_iff)
    then have "M + 1 \<le> (N + 1) * D" by simp
    then have "real_of_int (M + 1) \<le> real_of_int ((N + 1) * D)" by (simp only: of_int_le_iff)
    then have "real_of_int (M + 1) \<le> real_of_int (N + 1) * real_of_int D" by simp
    then have "real_of_int (M + 1) / real_of_int D \<le> real_of_int (N + 1)"
      using D by (simp add: pos_divide_le_eq)
    then have "real_of_int M / real_of_int D + 1 / real_of_int D \<le> real_of_int (N + 1)"
      by (simp only: step)
    then show ?thesis by (simp add: grid)
  qed
  have lower: "real_of_int N + 1 / real_of_int D \<le> t + 1 / 2"
    if tie: "real_of_int N \<noteq> t + 1 / 2"
  proof -
    from N(1) tie grid have "real_of_int N < real_of_int M / real_of_int D" by simp
    then have "real_of_int N * real_of_int D < real_of_int M"
      using D by (simp add: pos_less_divide_eq)
    then have "real_of_int (N * D) < real_of_int M" by simp
    then have "N * D < M" by (simp only: of_int_less_iff)
    then have "N * D + 1 \<le> M" by simp
    then have "real_of_int (N * D + 1) \<le> real_of_int M" by (simp only: of_int_le_iff)
    then have "(real_of_int N * real_of_int D + 1) / real_of_int D
        \<le> real_of_int M / real_of_int D"
      using D by (intro divide_right_mono) simp_all
    moreover have "(real_of_int N * real_of_int D + 1) / real_of_int D
        = real_of_int N + 1 / real_of_int D"
      using D by (simp add: field_simps)
    ultimately show ?thesis by (simp only: grid)
  qed
  have shown: "shown = \<lfloor>x2 + 1 / 2\<rfloor>" and exact: "Math_round t = N"
    by (simp_all add: shown_def x2_def Math_round_def N_def)
  from err eps upper have "x2 + 1 / 2 < real_of_int N + 1" by linarith
  then have le: "\<lfloor>x2 + 1 / 2\<rfloor> \<le> N" by (simp add: floor_le_iff)
  have eps1: "(300::real) / 2 ^ 53 \<le> 1" by simp
  from err eps1 N(1) have "real_of_int N - 1 \<le> x2 + 1 / 2" by linarith
  then have "real_of_int (N - 1) \<le> x2 + 1 / 2" by simp
  then have ge: "N - 1 \<le> \<lfloor>x2 + 1 / 2\<rfloor>" by (simp only: le_floor_iff)
  have near: "shown = Math_round t \<or> shown = Math_round t - 1"
    unfolding shown exact using le ge by linarith
  have same: "shown = Math_round t" if "real_of_int (Math_round t) \<noteq> t + 1 / 2"
  proof -
    from that have "real_of_int N \<noteq> t + 1 / 2" unfolding exact .
    from lower [OF this] err eps have "real_of_int N \<le> x2 + 1 / 2" by linarith
    then have "N \<le> \<lfloor>x2 + 1 / 2\<rfloor>" by (simp only: le_floor_iff)
    with le show ?thesis unfolding shown exact by linarith
  qed
  from near same show ?thesis by blast
qed

section \<open>The accuracy shown\<close>

text \<open>
  With 23 right answers in 40 checks the quotient \<open>23 / 40\<close> is rounded to a double below
  it, the product with 100 is rounded to the double just below 57.5, and the program
  shows 57. The percentage \<open>100 * 23 / 40\<close> is 57.5, which rounds to 58.
\<close>

theorem accuracy_23_of_40:
  "accuracy (sampleState\<lparr>attempts := 40, correctCount := 23\<rparr>) = 57
   \<and> Math_round (100 * real (correctCount (sampleState\<lparr>attempts := 40, correctCount := 23\<rparr>))
                  / real (attempts (sampleState\<lparr>attempts := 40, correctCount := 23\<rparr>))) = 58"
proof -
  have quotient: "fl (23 / 40) = 2589569785738035 / 4503599627370496"
    using fl_eval [of "- 1" "23 / 40"] by (simp add: pow2_def roundTiesToEven_def Let_def)
  have times: "(2589569785738035 / 4503599627370496 :: real) * 100
                 = 64739244643450875 / 1125899906842624"
    by simp
  have product: "fl (64739244643450875 / 1125899906842624) = 8092405580431359 / 140737488355328"
    using fl_eval [of 5 "64739244643450875 / 1125899906842624"]
    by (simp add: pow2_def roundTiesToEven_def Let_def)
  have shown: "Math_round (8092405580431359 / 140737488355328) = 57"
    by (simp add: Math_round_def)
  have exact: "Math_round (100 * 23 / 40) = 58"
    by (simp add: Math_round_def)
  have "accuracy (sampleState\<lparr>attempts := 40, correctCount := 23\<rparr>)
          = Math_round (fl (fl (23 / 40) * 100))"
    by (simp add: accuracy_def)
  also have "\<dots> = 57"
    by (simp only: quotient times product shown)
  finally show ?thesis using exact by simp
qed

text \<open>
  C9, as the code has it. With no attempt the accuracy shown is 100. With at least one
  attempt (and fewer than \<open>10\<^sup>1\<^sup>2\<close>) and no more right answers than attempts, the
  accuracy shown is \<^verbatim>\<open>Math.round\<close> of the double \<^verbatim>\<open>(correctCount / attempts) * 100\<close>: it
  is the percentage \<open>100 * correctCount / attempts\<close> rounded to the nearest integer
  whenever the percentage is not exactly half-way between two integers, and at such a
  half-way value it is the percentage rounded up or one less.
\<close>

theorem accuracy_rounds_percentage:
  "(attempts s = 0 \<longrightarrow> accuracy s = 100)
   \<and> (attempts s \<noteq> 0 \<and> correctCount s \<le> attempts s \<and> attempts s < 10 ^ 12 \<longrightarrow>
        (accuracy s = Math_round (100 * real (correctCount s) / real (attempts s))
         \<or> accuracy s = Math_round (100 * real (correctCount s) / real (attempts s)) - 1)
      \<and> (real_of_int (Math_round (100 * real (correctCount s) / real (attempts s)))
             \<noteq> 100 * real (correctCount s) / real (attempts s) + 1 / 2 \<longrightarrow>
           accuracy s = Math_round (100 * real (correctCount s) / real (attempts s))))"
proof -
  have none: "attempts s = 0 \<Longrightarrow> accuracy s = 100"
    by (simp add: accuracy_def)
  have some: "(accuracy s = Math_round (100 * real (correctCount s) / real (attempts s))
         \<or> accuracy s = Math_round (100 * real (correctCount s) / real (attempts s)) - 1)
      \<and> (real_of_int (Math_round (100 * real (correctCount s) / real (attempts s)))
             \<noteq> 100 * real (correctCount s) / real (attempts s) + 1 / 2 \<longrightarrow>
           accuracy s = Math_round (100 * real (correctCount s) / real (attempts s)))"
    if a: "attempts s \<noteq> 0" and ca: "correctCount s \<le> attempts s"
      and small: "attempts s < 10 ^ 12"
  proof -
    from a have pos: "0 < attempts s" by simp
    from small have "real (attempts s) < real (10 ^ 12)" by (simp only: of_nat_less_iff)
    then have bound: "real (attempts s) < 10 ^ 12" by simp
    have shown: "accuracy s = Math_round (fl (fl (real (correctCount s) / real (attempts s)) * 100))"
      using a by (simp add: accuracy_def)
    show ?thesis
      unfolding shown by (rule percent_rounding [OF pos ca bound])
  qed
  from none some show ?thesis by blast
qed

theorem accuracy_rounds_percentage_witness:
  "accuracy (sampleState\<lparr>attempts := 0, correctCount := 0\<rparr>) = 100
   \<and> accuracy sampleState = 33
   \<and> Math_round (100 * real (correctCount sampleState) / real (attempts sampleState)) = 33"
proof -
  have counts: "attempts sampleState = 3" "correctCount sampleState = 1"
    by (simp_all add: sampleState_def)
  have exact: "Math_round (100 * real (correctCount sampleState) / real (attempts sampleState)) = 33"
    by (simp add: counts Math_round_def)
  have off: "real_of_int 33 \<noteq> 100 * real (correctCount sampleState) / real (attempts sampleState) + 1 / 2"
    by (simp add: counts)
  have ok: "attempts sampleState \<noteq> 0" "correctCount sampleState \<le> attempts sampleState"
    "attempts sampleState < 10 ^ 12"
    by (simp_all add: counts)
  from accuracy_rounds_percentage [of sampleState] ok off
  have mid: "accuracy sampleState = 33" unfolding exact by blast
  from accuracy_rounds_percentage [of "sampleState\<lparr>attempts := 0, correctCount := 0\<rparr>"]
  have start: "accuracy (sampleState\<lparr>attempts := 0, correctCount := 0\<rparr>) = 100" by simp
  from start mid exact show ?thesis by blast
qed

section \<open>The loader\<close>

lemma toCountry_None_iff: "toCountry U x = None \<longleftrightarrow> isoNumeric x = None"
  by (cases x) (auto simp add: toCountry_def isoNumeric_def split: option.splits)

lemma toCountry_ident: "isoNumeric x = Some n \<Longrightarrow> ident (the (toCountry U x)) = parseIntString U n"
  by (cases x) (auto simp add: toCountry_def isoNumeric_def split: option.splits)

lemma filterBoolean_toCountry_ident:
  "map ident (filterBoolean (map (toCountry U) ds))
     = map (parseIntString U) (filterBoolean (map isoNumeric ds))"
proof (induction ds)
  case Nil
  show ?case by simp
next
  case (Cons x ds)
  show ?case
  proof (cases "isoNumeric x")
    case None
    then have "toCountry U x = None" by (simp add: toCountry_None_iff)
    with None Cons.IH show ?thesis by simp
  next
    case (Some n)
    then obtain c where c: "toCountry U x = Some c"
      using toCountry_None_iff [of U x] by (cases "toCountry U x") auto
    with toCountry_ident [OF Some, of U] have "ident c = parseIntString U n" by simp
    with Some c Cons.IH show ?thesis by simp
  qed
qed

lemma filterBoolean_append: "filterBoolean (xs @ ys) = filterBoolean xs @ filterBoolean ys"
  by (induction xs rule: filterBoolean.induct) simp_all

lemma length_filterBoolean_toCountry:
  "length (filterBoolean (map (toCountry U) ds))
     = length (filter (\<lambda>x. isoNumeric x \<noteq> None) ds)"
proof (induction ds)
  case Nil
  show ?case by simp
next
  case (Cons x ds)
  then show ?case
    using toCountry_None_iff [of U x] by (cases "toCountry U x") auto
qed

lemmas loader_simps = buildCountries_def toCountry_def isoNumeric_def titleize_def
  titleizePart_def continentName_def CONTINENT_NAMES_def parseIntStringRef_def
  strWhiteSpace_def isDigit_def digitsValue_def decimal.simps upperLatin1_def
  inheritedMemberRef_def objectPrototypeFunctions_def

lemmas detail_simps = sampleDetails_def afghanistanDetail_def singaporeDetail_def
  kosovoDetail_def antarcticaDetail_def

lemma duplicate_loaded_ids:
  "map ident (buildCountries (refEnv\<lparr>getAllCountryDetails := duplicateDetails\<rparr>))
     = [utf16 ''4'', utf16 ''4'']"
  by (simp add: duplicateDetails_def afghanistanDetail_def refEnv_def utf16_def loader_simps)

text \<open>
  Two raw entries with the numeric code "004" give two records with the id "4": the
  loader returns both.
\<close>

theorem buildCountries_keeps_duplicate_codes:
  "map ident (buildCountries (refEnv\<lparr>getAllCountryDetails := duplicateDetails\<rparr>))
     = [utf16 ''4'', utf16 ''4'']
   \<and> \<not> distinct (map ident (buildCountries (refEnv\<lparr>getAllCountryDetails := duplicateDetails\<rparr>)))"
  by (simp add: duplicate_loaded_ids)

text \<open>
  C4, as the code has it. \<open>buildCountries\<close> returns one record for each raw entry that
  has an ISO numeric code, in the order of the dataset, with the id
  \<^verbatim>\<open>String(parseInt(numeric, 10))\<close>; an entry without a code is dropped, wherever it
  stands. The loader does not deduplicate: the ids of its records are pairwise
  distinct exactly when the parsed codes of the raw entries are.
\<close>

theorem buildCountries_one_record_per_code:
  "map ident (buildCountries U)
     = map (parseIntString U) (filterBoolean (map isoNumeric (getAllCountryDetails U)))
   \<and> length (buildCountries U)
       = length (filter (\<lambda>x. isoNumeric x \<noteq> None) (getAllCountryDetails U))
   \<and> (isoNumeric x = None \<longrightarrow>
        buildCountries (U\<lparr>getAllCountryDetails := before @ [x] @ after\<rparr>)
          = buildCountries (U\<lparr>getAllCountryDetails := before @ after\<rparr>))
   \<and> (distinct (map ident (buildCountries U))
        \<longleftrightarrow> distinct (map (parseIntString U)
                          (filterBoolean (map isoNumeric (getAllCountryDetails U)))))"
proof -
  have ids: "map ident (buildCountries U)
      = map (parseIntString U) (filterBoolean (map isoNumeric (getAllCountryDetails U)))"
    by (simp add: buildCountries_def filterBoolean_toCountry_ident)
  have len: "length (buildCountries U)
      = length (filter (\<lambda>x. isoNumeric x \<noteq> None) (getAllCountryDetails U))"
    by (simp add: buildCountries_def length_filterBoolean_toCountry)
  have same: "toCountry (U\<lparr>getAllCountryDetails := ds\<rparr>) = toCountry U" for ds
  proof -
    have part: "titleizePart (U\<lparr>getAllCountryDetails := ds\<rparr>) = titleizePart U"
      by (rule ext) (simp add: titleizePart_def)
    have title: "titleize (U\<lparr>getAllCountryDetails := ds\<rparr>) = titleize U"
      by (rule ext) (simp add: titleize_def part)
    have cont: "continentName (U\<lparr>getAllCountryDetails := ds\<rparr>) = continentName U"
      by (rule ext) (simp add: continentName_def split: option.splits)
    show ?thesis
      by (rule ext) (simp add: toCountry_def title cont split: option.splits)
  qed
  have dropped: "isoNumeric x = None \<Longrightarrow>
      buildCountries (U\<lparr>getAllCountryDetails := before @ [x] @ after\<rparr>)
        = buildCountries (U\<lparr>getAllCountryDetails := before @ after\<rparr>)"
    using toCountry_None_iff [of U x]
    by (simp add: buildCountries_def same filterBoolean_append)
  from ids len dropped show ?thesis by simp
qed

theorem buildCountries_one_record_per_code_witness:
  "map ident (buildCountries refEnv) = [utf16 ''4'', utf16 ''702'', utf16 ''10'']
   \<and> length (buildCountries refEnv) = 3
   \<and> buildCountries (refEnv\<lparr>getAllCountryDetails := [Some kosovoDetail]\<rparr>) = []
   \<and> distinct (map ident (buildCountries refEnv))"
proof -
  have codes: "filterBoolean (map isoNumeric (getAllCountryDetails refEnv))
                 = [utf16 ''004'', utf16 ''702'', utf16 ''010'']"
    by (simp add: refEnv_def detail_simps isoNumeric_def utf16_def)
  have parsed: "map (parseIntString refEnv) [utf16 ''004'', utf16 ''702'', utf16 ''010'']
                  = [utf16 ''4'', utf16 ''702'', utf16 ''10'']"
    by (simp add: refEnv_def utf16_def loader_simps)
  have coded: "length (filter (\<lambda>x. isoNumeric x \<noteq> None) (getAllCountryDetails refEnv)) = 3"
    by (simp add: refEnv_def detail_simps isoNumeric_def utf16_def)
  have missing: "isoNumeric (Some kosovoDetail) = None"
    by (simp add: kosovoDetail_def isoNumeric_def)
  have emptied: "buildCountries (refEnv\<lparr>getAllCountryDetails := []\<rparr>) = []"
    by (simp add: buildCountries_def)
  have differ: "distinct [utf16 ''4'', utf16 ''702'', utf16 ''10'']"
    by (simp add: utf16_def)
  note loaded = buildCountries_one_record_per_code [of refEnv "Some kosovoDetail" "[]" "[]"]
  from loaded have l1: "map ident (buildCountries refEnv)
      = map (parseIntString refEnv) (filterBoolean (map isoNumeric (getAllCountryDetails refEnv)))"
    by blast
  from loaded have l2: "length (buildCountries refEnv)
      = length (filter (\<lambda>x. isoNumeric x \<noteq> None) (getAllCountryDetails refEnv))"
    by blast
  from loaded missing have l3:
    "buildCountries (refEnv\<lparr>getAllCountryDetails := [] @ [Some kosovoDetail] @ []\<rparr>)
       = buildCountries (refEnv\<lparr>getAllCountryDetails := [] @ []\<rparr>)"
    by blast
  have ids: "map ident (buildCountries refEnv) = [utf16 ''4'', utf16 ''702'', utf16 ''10'']"
    by (simp only: l1 codes parsed)
  have len: "length (buildCountries refEnv) = 3"
    by (simp only: l2 coded)
  have dropped: "buildCountries (refEnv\<lparr>getAllCountryDetails := [Some kosovoDetail]\<rparr>) = []"
  proof -
    from l3 have "buildCountries (refEnv\<lparr>getAllCountryDetails := [Some kosovoDetail]\<rparr>)
        = buildCountries (refEnv\<lparr>getAllCountryDetails := []\<rparr>)"
      by simp
    then show ?thesis by (simp only: emptied)
  qed
  have dist: "distinct (map ident (buildCountries refEnv))"
    by (simp only: ids differ)
  from ids len dropped dist show ?thesis by blast
qed

section \<open>The drive side of a record\<close>

text \<open>
  C10. A raw entry with an ISO numeric code becomes a record whose \<open>driveDirection\<close>
  is \<open>DLeft\<close> exactly when \<^verbatim>\<open>drive_direction\<close> is the string "left", and \<open>DRight\<close> for
  every other value, an absent one included; the entry is kept (the loader returns as
  many records as there are entries with a code). For a record with \<open>DRight\<close> the
  drive-side question has the answer "Right".
\<close>

theorem driveDirection_left_iff:
  "(isoNumeric (Some d) = Some n \<longrightarrow>
      (\<exists>c. toCountry U (Some d) = Some c
           \<and> (driveDirection c = DLeft) = (drive_direction d = Some (utf16 ''left''))
           \<and> (driveDirection c = DRight) = (drive_direction d \<noteq> Some (utf16 ''left''))))
   \<and> length (buildCountries U)
       = length (filter (\<lambda>x. isoNumeric x \<noteq> None) (getAllCountryDetails U))
   \<and> (buildGeoQuestion U k c = (Some q, k')
        \<and> prompt q = utf16 ''Which driving side is used in '' @ name c @ utf16 ''?''
        \<and> driveDirection c = DRight \<longrightarrow>
        GeoQuestion.answer q = utf16 ''Right'')"
proof -
  have coerced: "isoNumeric (Some d) = Some n \<Longrightarrow>
      \<exists>c. toCountry U (Some d) = Some c
         \<and> (driveDirection c = DLeft) = (drive_direction d = Some (utf16 ''left''))
         \<and> (driveDirection c = DRight) = (drive_direction d \<noteq> Some (utf16 ''left''))"
    by (simp add: toCountry_def)
  have len: "length (buildCountries U)
      = length (filter (\<lambda>x. isoNumeric x \<noteq> None) (getAllCountryDetails U))"
    by (simp add: buildCountries_def length_filterBoolean_toCountry)
  have other: "utf16 ''Is '' @ name c @ utf16 '' landlocked?''
                 \<noteq> utf16 ''Which driving side is used in '' @ name c @ utf16 ''?''"
    by (simp add: utf16_def)
  have asked: "buildGeoQuestion U k c = (Some q, k') \<Longrightarrow>
      prompt q = utf16 ''Which driving side is used in '' @ name c @ utf16 ''?'' \<Longrightarrow>
      driveDirection c = DRight \<Longrightarrow> GeoQuestion.answer q = utf16 ''Right''"
    using other
    by (auto simp add: buildGeoQuestion_def Let_def elemAt_def nth_Cons'
          split: prod.splits if_splits)
  from coerced len asked show ?thesis by blast
qed

lemma fl_small_values: "fl 0 = 0" "fl (3 / 4) = 3 / 4" "fl (5 / 4) = 5 / 4"
  using fl_eval [of "- 1" "3 / 4"] fl_eval [of 0 "5 / 4"]
  by (simp_all add: fl_def pow2_def roundTiesToEven_def Let_def)

lemma randomBelow_ref_2:
  "randomBelow refEnv 0 (Suc (Suc 0)) = 0" "randomBelow refEnv (Suc 0) (Suc (Suc 0)) = 0"
  "randomBelow refEnv (Suc (Suc 0)) (Suc (Suc 0)) = 1"
  by (simp_all add: randomBelow_def refEnv_def fl_small_values)

lemma shuffle_ref_pairs:
  "shuffle refEnv 0 [a, b] = ([b, a], Suc 0)"
  "shuffle refEnv (Suc 0) [a, b] = ([b, a], Suc (Suc 0))"
  by (simp_all add: shuffle_def randomBelow_ref_2)

lemma buildGeoQuestion_antarctica:
  "buildGeoQuestion refEnv 0 antarctica
     = (Some \<lparr> prompt = utf16 ''Which driving side is used in '' @ name antarctica @ utf16 ''?'',
                answer = utf16 ''Right'',
                options = [utf16 ''Right'', utf16 ''Left''] \<rparr>, 3)"
proof -
  have side: "driveDirection antarctica = DRight"
    by (simp add: antarctica_def)
  show ?thesis
    by (simp add: buildGeoQuestion_def shuffle_ref_pairs randomBelow_ref_2 elemAt_def side)
qed

lemma antarctica_loaded: "toCountry refEnv (Some antarcticaDetail) = Some antarctica"
proof -
  have t1: "titleize refEnv (utf16 ''antarctica'') = utf16 ''Antarctica''"
    and t2: "titleize refEnv [] = []"
    by (simp_all add: refEnv_def utf16_def titleize_def titleizePart_def upperLatin1_def)
  have t3: "parseIntString refEnv (utf16 ''010'') = utf16 ''10''"
    by (simp add: refEnv_def utf16_def parseIntStringRef_def strWhiteSpace_def isDigit_def
          digitsValue_def decimal.simps)
  have t4: "continentName refEnv (utf16 ''an'') = utf16 ''Antarctica''"
    by (simp add: refEnv_def utf16_def continentName_def CONTINENT_NAMES_def)
  have t5: "utf16 ''010'' \<noteq> []"
    by (simp add: utf16_def)
  show ?thesis
    by (simp add: antarcticaDetail_def antarctica_def toCountry_def isoNumeric_def t1 t2 t3 t4 t5)
qed

theorem driveDirection_left_iff_witness:
  "toCountry refEnv (Some antarcticaDetail) = Some antarctica
   \<and> drive_direction antarcticaDetail = None
   \<and> driveDirection antarctica = DRight
   \<and> length (buildCountries refEnv) = 3
   \<and> GeoQuestion.answer (the (fst (buildGeoQuestion refEnv 0 antarctica))) = utf16 ''Right''"
proof -
  have coded: "isoNumeric (Some antarcticaDetail) = Some (utf16 ''010'')"
    by (simp add: antarcticaDetail_def isoNumeric_def utf16_def)
  have absent: "drive_direction antarcticaDetail = None"
    by (simp add: antarcticaDetail_def)
  have entries: "length (filter (\<lambda>x. isoNumeric x \<noteq> None) (getAllCountryDetails refEnv)) = 3"
    by (simp add: refEnv_def detail_simps isoNumeric_def utf16_def)
  note coercion = driveDirection_left_iff [of antarcticaDetail "utf16 ''010''" refEnv 0 antarctica
      "\<lparr> prompt = utf16 ''Which driving side is used in '' @ name antarctica @ utf16 ''?'',
         answer = utf16 ''Right'', options = [utf16 ''Right'', utf16 ''Left''] \<rparr>" 3]
  from coercion coded obtain c where c: "toCountry refEnv (Some antarcticaDetail) = Some c"
    and right: "(driveDirection c = DRight)
                  = (drive_direction antarcticaDetail \<noteq> Some (utf16 ''left''))"
    by blast
  from c antarctica_loaded have "c = antarctica" by simp
  with right absent have side: "driveDirection antarctica = DRight" by simp
  from coercion have len: "length (buildCountries refEnv) = 3"
    by (simp only: entries)
  from coercion buildGeoQuestion_antarctica side
  have "GeoQuestion.answer (the (fst (buildGeoQuestion refEnv 0 antarctica))) = utf16 ''Right''"
    by simp
  with antarctica_loaded absent side len show ?thesis by blast
qed

section \<open>The pool\<close>

text \<open>Under the contract of the random source every index the loop draws is in range, so
  each pass swaps two elements and the shuffled list is a permutation of the array.\<close>

lemma randomBelow_less:
  assumes "unitRandom U" and "0 < n" and "n < 2 ^ 53"
  shows "randomBelow U k n < n"
proof -
  from assms(1) have "0 \<le> Math_random U k" "Math_random U k \<le> 1 - 1 / 2 ^ 53"
    by (simp_all add: unitRandom_def)
  from floor_fl_product_less [OF this assms(2,3)] show ?thesis
    by (simp add: randomBelow_def)
qed

lemma shuffleLoop_mset:
  assumes "unitRandom U" and "length result < 2 ^ 53"
  shows "i < length result \<Longrightarrow> mset (fst (shuffleLoop U i k result)) = mset result"
  using assms(2)
proof (induction i arbitrary: k result)
  case 0
  show ?case by simp
next
  case (Suc i)
  define j where "j = randomBelow U k (Suc i + 1)"
  define swapped where "swapped = result[Suc i := result ! j, j := result ! Suc i]"
  from Suc.prems have "Suc i + 1 \<le> length result" by simp
  from this Suc.prems(2) have "Suc i + 1 < 2 ^ 53" by (rule le_less_trans)
  from randomBelow_less [OF assms(1) _ this, of k] have "j < Suc i + 1"
    by (simp add: j_def)
  with Suc.prems(1) have j: "j < length result" by simp
  have same: "mset swapped = mset result"
    unfolding swapped_def using mset_swap [OF j Suc.prems(1)] .
  have len: "length swapped = length result"
    by (simp add: swapped_def)
  from Suc.prems have "i < length swapped" "length swapped < 2 ^ 53"
    by (simp_all add: len)
  from Suc.IH [OF this] have "mset (fst (shuffleLoop U i (Suc k) swapped)) = mset result"
    by (simp only: same)
  then show ?case
    by (simp add: Let_def j_def swapped_def)
qed

lemma shuffle_mset:
  assumes "unitRandom U" and "length array < 2 ^ 53"
  shows "mset (fst (shuffle U k array)) = mset array"
proof (cases array)
  case Nil
  then show ?thesis by (simp add: shuffle_def)
next
  case (Cons x xs)
  then have "length array - 1 < length array" by simp
  from shuffleLoop_mset [OF assms this] show ?thesis
    by (simp add: shuffle_def)
qed

lemma length_buildCountries_le:
  "length (buildCountries U) \<le> length (getAllCountryDetails U)"
  by (simp add: buildCountries_def length_filterBoolean_toCountry)

lemma buildPool_shuffled:
  assumes "unitRandom U" and "length (getAllCountryDetails U) < 2 ^ 32"
  shows "\<exists>shuffled. fst (buildPool U k) = take TOTAL_LEVELS shuffled
           \<and> mset shuffled = mset (buildCountries U)"
proof -
  have "(2::nat) ^ 32 \<le> 2 ^ 53" by (rule power_increasing) simp_all
  with assms(2) length_buildCountries_le [of U] have "length (buildCountries U) < 2 ^ 53"
    by linarith
  from shuffle_mset [OF assms(1) this, of k] show ?thesis
    by (auto simp add: buildPool_def Let_def split: prod.splits)
qed

lemma unitRandom_ref: "unitRandom (refEnv\<lparr>getAllCountryDetails := ds\<rparr>)"
proof -
  have "real ((5 * k + 3) mod 8) / 8 \<le> 1 - 1 / 2 ^ 53" for k :: nat
  proof -
    have "(5 * k + 3) mod 8 \<le> 7" by simp
    then have "real ((5 * k + 3) mod 8) \<le> 7" by (simp only: of_nat_le_iff [symmetric] of_nat_numeral)
    then show ?thesis by simp
  qed
  then show ?thesis by (simp add: unitRandom_def refEnv_def)
qed

lemma shuffle_ref_first_pair:
  "shuffle (refEnv\<lparr>getAllCountryDetails := ds\<rparr>) 0 [a, b] = ([b, a], Suc 0)"
proof -
  have "randomBelow (refEnv\<lparr>getAllCountryDetails := ds\<rparr>) 0 (Suc (Suc 0)) = 0"
    using randomBelow_ref_2(1) by (simp add: randomBelow_def refEnv_def)
  then show ?thesis by (simp add: shuffle_def)
qed

lemma sample_loaded_ids:
  "map ident (buildCountries refEnv) = [utf16 ''4'', utf16 ''702'', utf16 ''10'']"
proof -
  have codes: "filterBoolean (map isoNumeric (getAllCountryDetails refEnv))
                 = [utf16 ''004'', utf16 ''702'', utf16 ''010'']"
    by (simp add: refEnv_def detail_simps isoNumeric_def utf16_def)
  have parsed: "map (parseIntString refEnv) [utf16 ''004'', utf16 ''702'', utf16 ''010'']
                  = [utf16 ''4'', utf16 ''702'', utf16 ''10'']"
    by (simp add: refEnv_def utf16_def loader_simps)
  show ?thesis
    by (simp only: buildCountries_def filterBoolean_toCountry_ident codes parsed)
qed

text \<open>
  From the dataset that lists the code "004" twice, the pool has two entries, both
  with the id "4".
\<close>

theorem buildPool_repeats_duplicate_codes:
  "length (fst (buildPool (refEnv\<lparr>getAllCountryDetails := duplicateDetails\<rparr>) 0)) = 2
   \<and> map ident (fst (buildPool (refEnv\<lparr>getAllCountryDetails := duplicateDetails\<rparr>) 0))
        = [utf16 ''4'', utf16 ''4'']
   \<and> \<not> distinct (map ident (fst (buildPool (refEnv\<lparr>getAllCountryDetails := duplicateDetails\<rparr>) 0)))"
proof -
  from duplicate_loaded_ids obtain a b
    where loaded: "buildCountries (refEnv\<lparr>getAllCountryDetails := duplicateDetails\<rparr>) = [a, b]"
      and ids: "ident a = utf16 ''4''" "ident b = utf16 ''4''"
    by (auto simp add: map_eq_Cons_conv)
  have "fst (buildPool (refEnv\<lparr>getAllCountryDetails := duplicateDetails\<rparr>) 0) = [b, a]"
    by (simp add: buildPool_def loaded shuffle_ref_first_pair TOTAL_LEVELS_def)
  with ids show ?thesis by simp
qed

text \<open>
  C5, as the code has it. With a random source that keeps its contract and a dataset
  an array can hold (fewer than \<open>2\<^sup>3\<^sup>2\<close> entries), a freshly built pool has length
  \<open>min 100 N\<close> for the \<open>N\<close> loaded records and is made of loaded records; it contains no
  two entries with the same id whenever the loaded records have pairwise distinct ids.
\<close>

theorem buildPool_length_and_ids:
  assumes "unitRandom U" and "length (getAllCountryDetails U) < 2 ^ 32"
  shows "length (fst (buildPool U k)) = min 100 (length (buildCountries U))
       \<and> (distinct (map ident (buildCountries U)) \<longrightarrow>
            distinct (map ident (fst (buildPool U k))))
       \<and> set (fst (buildPool U k)) \<subseteq> set (buildCountries U)"
proof -
  from buildPool_shuffled [OF assms, of k] obtain shuffled
    where pool: "fst (buildPool U k) = take TOTAL_LEVELS shuffled"
      and perm: "mset shuffled = mset (buildCountries U)"
    by blast
  from perm have len: "length shuffled = length (buildCountries U)"
    by (rule mset_eq_length)
  have size: "length (fst (buildPool U k)) = min 100 (length (buildCountries U))"
    by (simp add: pool len TOTAL_LEVELS_def min.commute)
  from perm have "mset (map ident shuffled) = mset (map ident (buildCountries U))"
    by simp
  then have "distinct (map ident shuffled) = distinct (map ident (buildCountries U))"
    by (rule mset_eq_imp_distinct_iff)
  then have ids: "distinct (map ident (buildCountries U)) \<Longrightarrow>
      distinct (map ident (fst (buildPool U k)))"
    by (simp add: pool take_map [symmetric])
  from perm have "set shuffled = set (buildCountries U)" by (rule mset_eq_setD)
  with set_take_subset [of TOTAL_LEVELS shuffled]
  have inside: "set (fst (buildPool U k)) \<subseteq> set (buildCountries U)"
    by (simp add: pool)
  from size ids inside show ?thesis by blast
qed

theorem buildPool_length_and_ids_witness:
  "length (fst (buildPool refEnv 0)) = 3
   \<and> distinct (map ident (fst (buildPool refEnv 0)))
   \<and> set (fst (buildPool refEnv 0)) \<subseteq> set (buildCountries refEnv)"
proof -
  have same: "refEnv\<lparr>getAllCountryDetails := sampleDetails\<rparr> = refEnv"
    by (simp add: refEnv_def)
  from unitRandom_ref [of sampleDetails] have contract: "unitRandom refEnv"
    by (simp only: same)
  have short: "length (getAllCountryDetails refEnv) < 2 ^ 32"
    by (simp add: refEnv_def sampleDetails_def)
  from sample_loaded_ids have "length (map ident (buildCountries refEnv)) = 3" by simp
  then have three: "length (buildCountries refEnv) = 3" by simp
  have differ: "distinct (map ident (buildCountries refEnv))"
    by (simp add: sample_loaded_ids utf16_def)
  from buildPool_length_and_ids [OF contract short, of 0] three differ
  show ?thesis by simp
qed

section \<open>The hint\<close>

lemma buildGeoQuestion_cases:
  assumes "buildGeoQuestion U k c = (Some q, k')"
  shows "(\<exists>opts. q = \<lparr> prompt = utf16 ''Is '' @ name c @ utf16 '' landlocked?'',
                       answer = (if isLandlocked c then utf16 ''Yes'' else utf16 ''No''),
                       options = opts \<rparr>)
       \<or> (\<exists>opts. q = \<lparr> prompt = utf16 ''Which driving side is used in '' @ name c @ utf16 ''?'',
                       answer = (if driveDirection c = DLeft then utf16 ''Left''
                                 else utf16 ''Right''),
                       options = opts \<rparr>)"
  using assms
  by (auto simp add: buildGeoQuestion_def Let_def elemAt_def nth_Cons'
        split: prod.splits if_splits)

lemma landlocked_prompt_includes:
  "stringIncludes (utf16 ''Is '' @ n @ utf16 '' landlocked?'') (utf16 ''landlocked'')"
proof -
  have "utf16 ''Is '' @ n @ utf16 '' landlocked?''
          = (utf16 ''Is '' @ n @ utf16 '' '') @ utf16 ''landlocked'' @ utf16 ''?''"
    by (simp add: utf16_def)
  then show ?thesis
    unfolding stringIncludes_def by (simp only: sublist_appendI)
qed

lemma driving_prompt_includes:
  "stringIncludes (utf16 ''Which driving side is used in '' @ n @ utf16 ''?'')
     (utf16 ''driving side'')"
proof -
  have "utf16 ''Which driving side is used in '' @ n @ utf16 ''?''
          = utf16 ''Which '' @ utf16 ''driving side'' @ (utf16 '' is used in '' @ n @ utf16 ''?'')"
    by (simp add: utf16_def)
  then show ?thesis
    unfolding stringIncludes_def by (simp only: sublist_appendI)
qed

lemma phrases_without_answers:
  "\<not> stringIncludes (utf16 ''No coastline.'') (utf16 ''Yes'')"
  "\<not> stringIncludes (utf16 ''Touches the sea.'') (utf16 ''No'')"
  "\<not> stringIncludes (utf16 ''No coastline.'') (utf16 ''Left'')"
  "\<not> stringIncludes (utf16 ''No coastline.'') (utf16 ''Right'')"
  "\<not> stringIncludes (utf16 ''Touches the sea.'') (utf16 ''Left'')"
  "\<not> stringIncludes (utf16 ''Touches the sea.'') (utf16 ''Right'')"
  "\<not> stringIncludes (utf16 ''They drive on the left side.'') (utf16 ''Left'')"
  "\<not> stringIncludes (utf16 ''They drive on the right side.'') (utf16 ''Right'')"
  by (simp_all add: stringIncludes_def utf16_def sublist_code)

lemma drive_phrases:
  "utf16 ''They drive on the '' @ sideText DLeft @ utf16 '' side.''
     = utf16 ''They drive on the left side.''"
  "utf16 ''They drive on the '' @ sideText DRight @ utf16 '' side.''
     = utf16 ''They drive on the right side.''"
  by (simp_all add: sideText_def utf16_def)

text \<open>
  The hint of the geography step, for a question that \<open>buildGeoQuestion\<close> made for the
  current country. The test on "landlocked" comes first, so a drive-side question
  about a country whose name has that word in it gets the coastline phrase; the hint is
  one of the four phrases in every case.
\<close>

lemma hintLine_geo:
  assumes "buildGeoQuestion U k c = (Some q, k')"
  shows "hintLine U (Some c) (Some q) SGeo
           \<in> set (map utf16 [''No coastline.'', ''Touches the sea.'',
                             ''They drive on the left side.'', ''They drive on the right side.''])
         \<and> \<not> stringIncludes (hintLine U (Some c) (Some q) SGeo) (GeoQuestion.answer q)"
proof -
  from buildGeoQuestion_cases [OF assms] consider
    (landlocked) opts where "q = \<lparr> prompt = utf16 ''Is '' @ name c @ utf16 '' landlocked?'',
                       answer = (if isLandlocked c then utf16 ''Yes'' else utf16 ''No''),
                       options = opts \<rparr>"
  | (driving) opts where "q = \<lparr> prompt = utf16 ''Which driving side is used in '' @ name c @ utf16 ''?'',
                       answer = (if driveDirection c = DLeft then utf16 ''Left''
                                 else utf16 ''Right''),
                       options = opts \<rparr>"
    by blast
  then show ?thesis
  proof cases
    case landlocked
    then show ?thesis
      by (simp add: hintLine_def landlocked_prompt_includes phrases_without_answers)
  next
    case driving
    show ?thesis
    proof (cases "driveDirection c")
      case DLeft
      with driving show ?thesis
        by (simp add: hintLine_def driving_prompt_includes phrases_without_answers drive_phrases)
    next
      case DRight
      with driving show ?thesis
        by (simp add: hintLine_def driving_prompt_includes phrases_without_answers drive_phrases)
    qed
  qed
qed

text \<open>
  The hint names the answer in full when the answer stands in the part of the sentence
  that is not the first letter. The capital of the record \<open>singapore\<close> is its name, and the
  hint of the capital step ends with the name; the continent of the record \<open>antarctica\<close>
  is its name, and the hint of the country step ends with the continent.
\<close>

theorem hintLine_names_answer:
  "hintLine refEnv (Some singapore) (Some singaporeDriving) SCapital
     = utf16 ''Capital starts with S for Singapore.''
   \<and> capital singapore = utf16 ''Singapore''
   \<and> stringIncludes (hintLine refEnv (Some singapore) (Some singaporeDriving) SCapital)
        (capital singapore)
   \<and> hintLine refEnv (Some antarctica) None SCountry
       = utf16 ''Country starts with A and sits in Antarctica.''
   \<and> name antarctica = utf16 ''Antarctica''
   \<and> stringIncludes (hintLine refEnv (Some antarctica) None SCountry) (name antarctica)"
proof -
  have initial: "toUpperCase refEnv (charAt0 (utf16 ''Singapore'')) = utf16 ''S''"
    "toUpperCase refEnv (charAt0 (utf16 ''Antarctica'')) = utf16 ''A''"
    by (simp_all add: refEnv_def upperLatin1_def charAt0_def utf16_def)
  have cap: "capital singapore = utf16 ''Singapore''"
    and nam: "name singapore = utf16 ''Singapore''"
    by (simp_all add: singapore_def)
  have ant: "name antarctica = utf16 ''Antarctica''"
    and cont: "continent antarctica = utf16 ''Antarctica''"
    by (simp_all add: antarctica_def)
  have clue: "hintLine refEnv (Some singapore) (Some singaporeDriving) SCapital
      = utf16 ''Capital starts with S for '' @ utf16 ''Singapore'' @ utf16 ''.''"
    by (simp add: hintLine_def cap nam initial) (simp add: utf16_def)
  have whole: "utf16 ''Capital starts with S for '' @ utf16 ''Singapore'' @ utf16 ''.''
      = utf16 ''Capital starts with S for Singapore.''"
    by (simp add: utf16_def)
  have inside: "stringIncludes
      (utf16 ''Capital starts with S for '' @ utf16 ''Singapore'' @ utf16 ''.'')
      (utf16 ''Singapore'')"
    unfolding stringIncludes_def by (rule sublist_appendI)
  have clue': "hintLine refEnv (Some antarctica) None SCountry
      = utf16 ''Country starts with A and sits in '' @ utf16 ''Antarctica'' @ utf16 ''.''"
    by (simp add: hintLine_def ant cont initial) (simp add: utf16_def)
  have whole': "utf16 ''Country starts with A and sits in '' @ utf16 ''Antarctica'' @ utf16 ''.''
      = utf16 ''Country starts with A and sits in Antarctica.''"
    by (simp add: utf16_def)
  have inside': "stringIncludes
      (utf16 ''Country starts with A and sits in '' @ utf16 ''Antarctica'' @ utf16 ''.'')
      (utf16 ''Antarctica'')"
    unfolding stringIncludes_def by (rule sublist_appendI)
  have capital_part:
    "hintLine refEnv (Some singapore) (Some singaporeDriving) SCapital
       = utf16 ''Capital starts with S for Singapore.''
     \<and> capital singapore = utf16 ''Singapore''
     \<and> stringIncludes (hintLine refEnv (Some singapore) (Some singaporeDriving) SCapital)
          (capital singapore)"
    using clue whole cap inside by simp
  have country_part:
    "hintLine refEnv (Some antarctica) None SCountry
       = utf16 ''Country starts with A and sits in Antarctica.''
     \<and> name antarctica = utf16 ''Antarctica''
     \<and> stringIncludes (hintLine refEnv (Some antarctica) None SCountry) (name antarctica)"
    using clue' whole' ant inside' by simp
  from capital_part country_part show ?thesis by blast
qed

text \<open>
  C7, as the code has it. With a current country the hint of the step \<open>SCountry\<close> is
  "Country starts with", the upper-cased first code unit of the name, "and sits in" and
  the continent; the hint of the step \<open>SCapital\<close> is "Capital starts with", the upper-cased
  first code unit of the capital, "for" and the name of the country. Of the text that
  is asked for, the two hints read the first code unit only: two records with the same
  initial and the same continent, or with the same initial of the capital and the same
  name, get the same hint, whatever the question. In the step \<open>SGeo\<close>, with a question
  that \<open>buildGeoQuestion\<close> made for the country, the hint is one of four phrases, none of
  which has the answer of the question ("Yes", "No", "Left", "Right") as a substring;
  the two drive-side phrases name the side in small letters.
\<close>

theorem hintLine_clue:
  "hintLine U (Some c) gq SCountry
     = utf16 ''Country starts with '' @ toUpperCase U (charAt0 (name c))
         @ utf16 '' and sits in '' @ continent c @ utf16 ''.''
   \<and> hintLine U (Some c) gq SCapital
       = utf16 ''Capital starts with '' @ toUpperCase U (charAt0 (capital c))
           @ utf16 '' for '' @ name c @ utf16 ''.''
   \<and> (charAt0 (name c) = charAt0 (name c') \<and> continent c = continent c' \<longrightarrow>
        hintLine U (Some c) gq SCountry = hintLine U (Some c') gq' SCountry)
   \<and> (charAt0 (capital c) = charAt0 (capital c') \<and> name c = name c' \<longrightarrow>
        hintLine U (Some c) gq SCapital = hintLine U (Some c') gq' SCapital)
   \<and> (buildGeoQuestion U k c = (Some q, k') \<longrightarrow>
        hintLine U (Some c) (Some q) SGeo
          \<in> set (map utf16 [''No coastline.'', ''Touches the sea.'',
                            ''They drive on the left side.'', ''They drive on the right side.''])
        \<and> \<not> stringIncludes (hintLine U (Some c) (Some q) SGeo) (GeoQuestion.answer q))"
proof -
  have country: "hintLine U (Some x) g SCountry
     = utf16 ''Country starts with '' @ toUpperCase U (charAt0 (name x))
         @ utf16 '' and sits in '' @ continent x @ utf16 ''.''" for x g
    by (simp add: hintLine_def)
  have capital: "hintLine U (Some x) g SCapital
       = utf16 ''Capital starts with '' @ toUpperCase U (charAt0 (capital x))
           @ utf16 '' for '' @ name x @ utf16 ''.''" for x g
    by (simp add: hintLine_def)
  have first_country: "charAt0 (name c) = charAt0 (name c') \<and> continent c = continent c' \<longrightarrow>
        hintLine U (Some c) gq SCountry = hintLine U (Some c') gq' SCountry"
    by (simp add: country)
  have first_capital: "charAt0 (capital c) = charAt0 (capital c') \<and> name c = name c' \<longrightarrow>
        hintLine U (Some c) gq SCapital = hintLine U (Some c') gq' SCapital"
    by (simp add: capital)
  from country [of c gq] capital [of c gq] first_country first_capital
    hintLine_geo [of U k c q k']
  show ?thesis by blast
qed

theorem hintLine_clue_witness:
  "hintLine refEnv (Some brazil) None SCountry
     = utf16 ''Country starts with B and sits in South America.''
   \<and> hintLine refEnv (Some brazil) None SCapital = utf16 ''Capital starts with B for Brazil.''
   \<and> hintLine refEnv (Some brazil) None SCountry
       = hintLine refEnv (Some (brazil\<lparr>name := utf16 ''Bolivia''\<rparr>)) (Some brazilLandlocked)
           SCountry
   \<and> hintLine refEnv (Some brazil) None SCapital
       = hintLine refEnv (Some (brazil\<lparr>capital := utf16 ''Belem''\<rparr>)) (Some brazilLandlocked)
           SCapital
   \<and> hintLine refEnv (Some antarctica) (fst (buildGeoQuestion refEnv 0 antarctica)) SGeo
       = utf16 ''They drive on the right side.''
   \<and> \<not> stringIncludes
         (hintLine refEnv (Some antarctica) (fst (buildGeoQuestion refEnv 0 antarctica)) SGeo)
         (utf16 ''Right'')"
proof -
  define q where "q = \<lparr> prompt = utf16 ''Which driving side is used in '' @ name antarctica
                                  @ utf16 ''?'',
      answer = utf16 ''Right'', options = [utf16 ''Right'', utf16 ''Left''] \<rparr>"
  have built: "buildGeoQuestion refEnv 0 antarctica = (Some q, 3)"
    unfolding q_def by (rule buildGeoQuestion_antarctica)
  have initials: "toUpperCase refEnv (charAt0 (name brazil)) = utf16 ''B''"
    "toUpperCase refEnv (charAt0 (capital brazil)) = utf16 ''B''"
    by (simp_all add: refEnv_def upperLatin1_def charAt0_def brazil_def utf16_def)
  have texts: "utf16 ''Country starts with '' @ utf16 ''B'' @ utf16 '' and sits in ''
                 @ continent brazil @ utf16 ''.''
               = utf16 ''Country starts with B and sits in South America.''"
    "utf16 ''Capital starts with '' @ utf16 ''B'' @ utf16 '' for '' @ name brazil @ utf16 ''.''
               = utf16 ''Capital starts with B for Brazil.''"
    by (simp_all add: brazil_def utf16_def)
  have like_bolivia: "charAt0 (name brazil) = charAt0 (name (brazil\<lparr>name := utf16 ''Bolivia''\<rparr>))
      \<and> continent brazil = continent (brazil\<lparr>name := utf16 ''Bolivia''\<rparr>)"
    by (simp add: charAt0_def brazil_def utf16_def)
  have like_belem:
    "charAt0 (capital brazil) = charAt0 (capital (brazil\<lparr>capital := utf16 ''Belem''\<rparr>))
      \<and> name brazil = name (brazil\<lparr>capital := utf16 ''Belem''\<rparr>)"
    by (simp add: charAt0_def brazil_def utf16_def)
  note bolivia = hintLine_clue [where U = refEnv and c = brazil and gq = None
      and c' = "brazil\<lparr>name := utf16 ''Bolivia''\<rparr>" and gq' = "Some brazilLandlocked"
      and k = 0 and q = q and k' = 3]
  note belem = hintLine_clue [where U = refEnv and c = brazil and gq = None
      and c' = "brazil\<lparr>capital := utf16 ''Belem''\<rparr>" and gq' = "Some brazilLandlocked"
      and k = 0 and q = q and k' = 3]
  note geo = hintLine_clue [where U = refEnv and c = antarctica and gq = None
      and c' = antarctica and gq' = None and k = 0 and q = q and k' = 3]
  from bolivia have "hintLine refEnv (Some brazil) None SCountry
     = utf16 ''Country starts with '' @ toUpperCase refEnv (charAt0 (name brazil))
         @ utf16 '' and sits in '' @ continent brazil @ utf16 ''.''"
    by blast
  then have country: "hintLine refEnv (Some brazil) None SCountry
     = utf16 ''Country starts with B and sits in South America.''"
    by (simp only: initials texts)
  from bolivia have "hintLine refEnv (Some brazil) None SCapital
       = utf16 ''Capital starts with '' @ toUpperCase refEnv (charAt0 (capital brazil))
           @ utf16 '' for '' @ name brazil @ utf16 ''.''"
    by blast
  then have capital: "hintLine refEnv (Some brazil) None SCapital
     = utf16 ''Capital starts with B for Brazil.''"
    by (simp only: initials texts)
  from bolivia like_bolivia have same_country:
    "hintLine refEnv (Some brazil) None SCountry
       = hintLine refEnv (Some (brazil\<lparr>name := utf16 ''Bolivia''\<rparr>)) (Some brazilLandlocked)
           SCountry"
    by blast
  from belem like_belem have same_capital:
    "hintLine refEnv (Some brazil) None SCapital
       = hintLine refEnv (Some (brazil\<lparr>capital := utf16 ''Belem''\<rparr>)) (Some brazilLandlocked)
           SCapital"
    by blast
  from geo built have hidden: "\<not> stringIncludes (hintLine refEnv (Some antarctica) (Some q) SGeo)
      (GeoQuestion.answer q)"
    by blast
  have side: "driveDirection antarctica = DRight"
    by (simp add: antarctica_def)
  have not_landlocked: "\<not> stringIncludes (prompt q) (utf16 ''landlocked'')"
    by (simp add: q_def antarctica_def stringIncludes_def utf16_def sublist_code)
  have driving: "stringIncludes (prompt q) (utf16 ''driving side'')"
    by (simp add: q_def driving_prompt_includes)
  have phrase: "hintLine refEnv (Some antarctica) (Some q) SGeo
      = utf16 ''They drive on the right side.''"
    by (simp add: hintLine_def not_landlocked driving side drive_phrases)
  have ans: "GeoQuestion.answer q = utf16 ''Right''"
    by (simp add: q_def)
  have question: "fst (buildGeoQuestion refEnv 0 antarctica) = Some q"
    by (simp add: built)
  from hidden have hidden': "\<not> stringIncludes
         (hintLine refEnv (Some antarctica) (fst (buildGeoQuestion refEnv 0 antarctica)) SGeo)
         (utf16 ''Right'')"
    by (simp add: question ans)
  from phrase have phrase':
    "hintLine refEnv (Some antarctica) (fst (buildGeoQuestion refEnv 0 antarctica)) SGeo
       = utf16 ''They drive on the right side.''"
    by (simp add: question)
  from country capital same_country same_capital phrase' hidden' show ?thesis
    by blast
qed

end
